theory Spec2Isabelle
  imports Complex_Main
begin

section \<open>JavaScript numbers and the string conversions the library uses\<close>

text \<open>
  A JavaScript number is modelled as a real number, one of the two infinities, or NaN.
  Rounding to double precision, overflow and the sign of zero are not modelled: the
  arithmetic below is the exact one. What the library depends on is kept: NaN is
  contagious, every comparison with NaN is false, and \<open>x || 0\<close> replaces NaN and zero
  by zero.
\<close>

datatype jsnum = NaN | PInf | NInf | Num real

fun js_neg :: "jsnum \<Rightarrow> jsnum" where
  "js_neg NaN = NaN"
| "js_neg PInf = NInf"
| "js_neg NInf = PInf"
| "js_neg (Num a) = Num (- a)"

fun js_add :: "jsnum \<Rightarrow> jsnum \<Rightarrow> jsnum" where
  "js_add NaN _ = NaN"
| "js_add _ NaN = NaN"
| "js_add PInf NInf = NaN"
| "js_add NInf PInf = NaN"
| "js_add PInf _ = PInf"
| "js_add _ PInf = PInf"
| "js_add NInf _ = NInf"
| "js_add _ NInf = NInf"
| "js_add (Num a) (Num b) = Num (a + b)"

definition js_sub :: "jsnum \<Rightarrow> jsnum \<Rightarrow> jsnum" where
  "js_sub a b = js_add a (js_neg b)"

fun js_le :: "jsnum \<Rightarrow> jsnum \<Rightarrow> bool" where
  "js_le NaN _ = False"
| "js_le _ NaN = False"
| "js_le NInf _ = True"
| "js_le _ PInf = True"
| "js_le PInf _ = False"
| "js_le _ NInf = False"
| "js_le (Num a) (Num b) = (a \<le> b)"

definition js_ge :: "jsnum \<Rightarrow> jsnum \<Rightarrow> bool" where
  "js_ge a b = js_le b a"

fun js_lt :: "jsnum \<Rightarrow> jsnum \<Rightarrow> bool" where
  "js_lt NaN _ = False"
| "js_lt _ NaN = False"
| "js_lt PInf _ = False"
| "js_lt _ NInf = False"
| "js_lt NInf _ = True"
| "js_lt _ PInf = True"
| "js_lt (Num a) (Num b) = (a < b)"

definition js_gt :: "jsnum \<Rightarrow> jsnum \<Rightarrow> bool" where
  "js_gt a b = js_lt b a"

text \<open>\<open>x || 0\<close> on a number: NaN and zero are falsy.\<close>

definition or0 :: "jsnum \<Rightarrow> jsnum" where
  "or0 x = (if x = NaN \<or> x = Num 0 then Num 0 else x)"

subsection \<open>parseFloat and Number\<close>

definition is_digit :: "char \<Rightarrow> bool" where
  "is_digit c = (c \<in> set ''0123456789'')"

definition digit_val :: "char \<Rightarrow> nat" where
  "digit_val c = of_char c - 48"

definition digits_val :: "string \<Rightarrow> nat" where
  "digits_val ds = foldl (\<lambda>a c. 10 * a + digit_val c) 0 ds"

definition is_space :: "char \<Rightarrow> bool" where
  "is_space c = (c \<in> {CHR '' '', CHR 0x09, CHR 0x0A, CHR 0x0B, CHR 0x0C, CHR 0x0D})"

definition parse_sign :: "string \<Rightarrow> bool \<times> string" where
  "parse_sign s =
     (case s of
        [] \<Rightarrow> (False, [])
      | c # r \<Rightarrow> if c = CHR ''-'' then (True, r)
                 else if c = CHR ''+'' then (False, r)
                 else (False, s))"

definition parse_exponent :: "string \<Rightarrow> int \<times> string" where
  "parse_exponent s =
     (case s of
        [] \<Rightarrow> (0, [])
      | c # r \<Rightarrow>
          if c = CHR ''e'' \<or> c = CHR ''E'' then
            (let (neg, r') = parse_sign r;
                 ds = takeWhile is_digit r'
             in if ds = [] then (0, s)
                else (if neg then - int (digits_val ds) else int (digits_val ds),
                      dropWhile is_digit r'))
          else (0, s))"

text \<open>
  The longest prefix that is a signed decimal literal (\<open>StrDecimalLiteral\<close> of the
  language standard), with its value and the rest of the string; NaN when no prefix is one.
  White space is the white space of ASCII.
\<close>

definition str_decimal :: "string \<Rightarrow> jsnum \<times> string" where
  "str_decimal s =
     (let (neg, s1) = parse_sign s in
      if take 8 s1 = ''Infinity'' then (if neg then NInf else PInf, drop 8 s1)
      else
        let ip = takeWhile is_digit s1;
            r1 = dropWhile is_digit s1;
            dot = (r1 \<noteq> [] \<and> hd r1 = CHR ''.'');
            fp = (if dot then takeWhile is_digit (tl r1) else []);
            r2 = (if dot then dropWhile is_digit (tl r1) else r1)
        in if ip = [] \<and> fp = [] then (NaN, s)
           else
             let m = real (digits_val ip) + real (digits_val fp) / 10 ^ length fp;
                 (e, r3) = parse_exponent r2;
                 v = (if 0 \<le> e then m * 10 ^ nat e else m / 10 ^ nat (- e))
             in (Num (if neg then - v else v), r3))"

definition parseFloat :: "string \<Rightarrow> jsnum" where
  "parseFloat s = fst (str_decimal (dropWhile is_space s))"

definition radix_digit :: "nat \<Rightarrow> char \<Rightarrow> nat option" where
  "radix_digit b c =
     (let v = (if is_digit c then Some (digit_val c)
               else if c \<in> set ''abcdef'' then Some (of_char c - 87)
               else if c \<in> set ''ABCDEF'' then Some (of_char c - 55)
               else None)
      in case v of None \<Rightarrow> None | Some d \<Rightarrow> if d < b then Some d else None)"

definition radix_val :: "nat \<Rightarrow> string \<Rightarrow> jsnum" where
  "radix_val b ds =
     (if ds = [] \<or> list_ex (\<lambda>c. radix_digit b c = None) ds then NaN
      else Num (real (foldl (\<lambda>a c. b * a + the (radix_digit b c)) 0 ds)))"

text \<open>\<open>Number(s)\<close> on a string: the whole trimmed string has to be a numeric literal.\<close>

definition Number_of :: "string \<Rightarrow> jsnum" where
  "Number_of s =
     (let t = rev (dropWhile is_space (rev (dropWhile is_space s))) in
      if t = [] then Num 0
      else if take 2 t = ''0x'' \<or> take 2 t = ''0X'' then radix_val 16 (drop 2 t)
      else if take 2 t = ''0o'' \<or> take 2 t = ''0O'' then radix_val 8 (drop 2 t)
      else if take 2 t = ''0b'' \<or> take 2 t = ''0B'' then radix_val 2 (drop 2 t)
      else (case str_decimal t of (v, r) \<Rightarrow> if r = [] then v else NaN))"

section \<open>The page as the library sees it\<close>

text \<open>
  The model follows one target element through the library. The element, the placeholder
  that \<open>init\<close> creates for it and any other element of the document are the nodes.
\<close>

datatype node = Element | Placeholder | Other nat

text \<open>
  A value assigned to a property of an inline style. \<open>Px n\<close> stands for the template
  string made of the number \<open>n\<close> followed by \<open>px\<close>, and \<open>NumV n\<close> for the number
  \<open>n\<close> assigned as it is, so that the formatting of numbers as text stays symbolic. An
  inline style is a plain property map: what is assigned is what is read back, an unset
  property reads as the empty string, and the style parser's rejection of values that
  are not valid CSS is not modelled.
\<close>

datatype sval = Txt string | Px jsnum | NumV jsnum

datatype error = TypeError | Error string | SyntaxError | InvalidCharacterError

datatype 'a result = Return 'a | Throw error

record rect =
  rect_top :: real
  rect_bottom :: real
  rect_left :: real
  rect_width :: real
  rect_height :: real

text \<open>A \<open>Sticky\<close> object; its element is the target element of the model.\<close>

record sticky =
  settings :: "string \<rightharpoonup> string"

record margins =
  marginBottom :: string
  marginTop :: string

record boundaries =
  b_start :: jsnum
  b_end :: jsnum

text \<open>
  The function \<open>onScroll\<close> returns is \<open>stickToTop\<close> or \<open>stickToBottom\<close>, closed over
  the Sticky object, the sticky margins and the distance from the side. Every closure
  gets a fresh number when it is created, which is its identity as a listener.
\<close>

datatype side = StickToTop | StickToBottom

record scroll_fn =
  fn_id :: nat
  fn_sticky :: sticky
  fn_side :: side
  fn_margins :: margins
  fn_distance :: jsnum

record resize_fn =
  rfn_id :: nat
  rfn_sticky :: sticky

datatype fnref = ScrollFn scroll_fn | ResizeFn resize_fn

fun fn_ident :: "fnref \<Rightarrow> nat" where
  "fn_ident (ScrollFn f) = fn_id f"
| "fn_ident (ResizeFn f) = rfn_id f"

record handlers =
  scroll :: scroll_fn
  resize :: resize_fn

record placeholder_el =
  ph_nodeName :: string
  ph_style :: "string \<Rightarrow> sval"
  ph_parent :: bool

text \<open>The object the store keeps on the element under the library's namespace.\<close>

record data =
  placeholder :: placeholder_el
  handlers :: handlers
  position :: sval

text \<open>The third argument of \<open>addEventListener\<close> and \<open>removeEventListener\<close>.\<close>

datatype listener_options = Unspecified | OptionsObject bool | UseCapture bool

fun capture_of :: "listener_options \<Rightarrow> bool" where
  "capture_of Unspecified = False"
| "capture_of (OptionsObject passive) = False"
| "capture_of (UseCapture c) = c"

fun passive_of :: "listener_options \<Rightarrow> bool" where
  "passive_of (OptionsObject passive) = passive"
| "passive_of _ = False"

record listener =
  l_type :: string
  l_fn :: fnref
  l_capture :: bool
  l_passive :: bool

text \<open>
  Everything the library reads back after writing it: the element's tag name, whether it
  has a parent node, its inline style and class list, the store entry, the listeners on
  the window, the events dispatched on the element so far, and the next closure number.
  Only the library changes this state. Whatever else changes between two handler
  invocations, the style sheets, the layout, the scroll offset, reaches the library
  through the browser's answers.
\<close>

record world =
  el_nodeName :: string
  el_parent :: bool
  el_style :: "string \<Rightarrow> sval"
  el_classes :: "string list"
  el_store :: "data option"
  listeners :: "listener list"
  dispatched :: "string list"
  next_fn :: nat

text \<open>
  What the browser answers during one handler invocation. Layout is the browser's
  business: computed styles and bounding rectangles are arbitrary functions of the
  current state of the page, so that a read after a write sees the write.
  \<open>querySelectorAll\<close> gives \<open>None\<close> for a selector that is a syntax error.
\<close>

record browser =
  computedStyle :: "world \<Rightarrow> node \<Rightarrow> string \<Rightarrow> string"
  boundingRect :: "world \<Rightarrow> node \<Rightarrow> rect"
  parentRect :: "world \<Rightarrow> node \<Rightarrow> rect"
  querySelectorAll :: "world \<Rightarrow> string \<Rightarrow> node list option"
  passiveSupported :: bool
  pageYOffset :: real
  innerHeight :: real

fun bind_r :: "'a result \<times> 's \<Rightarrow> ('a \<Rightarrow> 's \<Rightarrow> 'b result \<times> 's) \<Rightarrow> 'b result \<times> 's" where
  "bind_r (Return a, w) f = f a w"
| "bind_r (Throw e, w) f = (Throw e, w)"

subsection \<open>Constants of the module\<close>

definition defaults :: "string \<rightharpoonup> string" where
  "defaults = [''selector'' \<mapsto> ''.sticky'', ''activeClass'' \<mapsto> ''sticky--active'']"

definition scrollOptions :: listener_options where
  "scrollOptions = OptionsObject True"

definition properties :: "string list" where
  "properties = [''width'', ''height'', ''left'', ''marginLeft'', ''marginRight'', ''zIndex'']"

text \<open>Reading a property of the settings object; a missing one reads as \<open>undefined\<close>.\<close>

definition activeClass :: "sticky \<Rightarrow> string" where
  "activeClass s = (case settings s ''activeClass'' of Some c \<Rightarrow> c | None \<Rightarrow> ''undefined'')"

definition selector :: "sticky \<Rightarrow> string" where
  "selector s = (case settings s ''selector'' of Some c \<Rightarrow> c | None \<Rightarrow> ''undefined'')"

subsection \<open>The helpers: store, style, class list, events\<close>

definition getData :: "world \<Rightarrow> data option" where
  "getData w = el_store w"

definition setData :: "data \<Rightarrow> world \<Rightarrow> world" where
  "setData d w = w\<lparr>el_store := Some d\<rparr>"

definition removeData :: "world \<Rightarrow> world" where
  "removeData w = w\<lparr>el_store := None\<rparr>"

definition set_el_style :: "string \<Rightarrow> sval \<Rightarrow> world \<Rightarrow> world" where
  "set_el_style p v w = w\<lparr>el_style := (el_style w)(p := v)\<rparr>"

definition set_ph_style :: "string \<Rightarrow> sval \<Rightarrow> world \<Rightarrow> world" where
  "set_ph_style p v w =
     w\<lparr>el_store := map_option
        (\<lambda>d. d\<lparr>placeholder := (placeholder d)\<lparr>ph_style := (ph_style (placeholder d))(p := v)\<rparr>\<rparr>)
        (el_store w)\<rparr>"

definition get_ph_style :: "world \<Rightarrow> string \<Rightarrow> sval" where
  "get_ph_style w p =
     (case el_store w of Some d \<Rightarrow> ph_style (placeholder d) p | None \<Rightarrow> Txt ''undefined'')"

text \<open>
  \<open>Style.resetStyleProperties\<close> and \<open>Style.copyStyleProperties\<close>. The style written to
  is given by its setter. The blueprint is read in the state of the moment, property by
  property, since a computed style is a live object.
\<close>

definition resetStyleProperties :: "(string \<Rightarrow> sval \<Rightarrow> world \<Rightarrow> world) \<Rightarrow> string list \<Rightarrow> world \<Rightarrow> world" where
  "resetStyleProperties style ps w = fold (\<lambda>property. style property (Txt [])) ps w"

definition copyStyleProperties ::
  "(string \<Rightarrow> sval \<Rightarrow> world \<Rightarrow> world) \<Rightarrow> (world \<Rightarrow> string \<Rightarrow> sval) \<Rightarrow> string list \<Rightarrow> world \<Rightarrow> world" where
  "copyStyleProperties style blueprintStyle ps w =
     fold (\<lambda>property w'. style property (blueprintStyle w' property) w') ps w"

definition classList_add :: "string \<Rightarrow> world \<Rightarrow> unit result \<times> world" where
  "classList_add c w =
     (if c = [] then (Throw SyntaxError, w)
      else if list_ex is_space c then (Throw InvalidCharacterError, w)
      else (Return (),
            w\<lparr>el_classes := (if c \<in> set (el_classes w) then el_classes w else el_classes w @ [c])\<rparr>))"

definition classList_remove :: "string \<Rightarrow> world \<Rightarrow> unit result \<times> world" where
  "classList_remove c w =
     (if c = [] then (Throw SyntaxError, w)
      else if list_ex is_space c then (Throw InvalidCharacterError, w)
      else (Return (), w\<lparr>el_classes := removeAll c (el_classes w)\<rparr>))"

text \<open>
  Modelled from the spec: the module \<open>helpers/event-emitter\<close> is not among the sources.
  The spec has the events \<open>stickystart\<close> and \<open>stickyend\<close> dispatched on the target
  element, bubbling and cancelable, with no payload; the model records the name of each
  dispatched event, in order. No listener for these events is registered in the model.
\<close>

definition fireEvent :: "string \<Rightarrow> world \<Rightarrow> world" where
  "fireEvent name w = w\<lparr>dispatched := dispatched w @ [name]\<rparr>"

definition addEventListener :: "string \<Rightarrow> fnref \<Rightarrow> listener_options \<Rightarrow> world \<Rightarrow> world" where
  "addEventListener t f opts w =
     (if list_ex (\<lambda>l. l_type l = t \<and> fn_ident (l_fn l) = fn_ident f \<and> l_capture l = capture_of opts)
           (listeners w)
      then w
      else w\<lparr>listeners := listeners w @
             [\<lparr>l_type = t, l_fn = f, l_capture = capture_of opts, l_passive = passive_of opts\<rparr>]\<rparr>)"

definition removeEventListener :: "string \<Rightarrow> fnref \<Rightarrow> listener_options \<Rightarrow> world \<Rightarrow> world" where
  "removeEventListener t f opts w =
     w\<lparr>listeners := filter
        (\<lambda>l. \<not> (l_type l = t \<and> fn_ident (l_fn l) = fn_ident f \<and> l_capture l = capture_of opts))
        (listeners w)\<rparr>"

fun indexOf :: "node list \<Rightarrow> node \<Rightarrow> int" where
  "indexOf [] x = - 1"
| "indexOf (y # ys) x =
     (if y = x then 0 else (let i = indexOf ys x in if i < 0 then - 1 else i + 1))"

section \<open>The library\<close>

text \<open>
  The functions of \<open>src/audero-sticky.js\<close> in its current form, the ES2015 module
  that imports \<open>helpers/store\<close>, \<open>helpers/style\<close> and \<open>helpers/event-emitter\<close>.
  A function that writes to the page takes the state and returns the state it leaves,
  with \<open>Return\<close> and its value or \<open>Throw\<close> and the exception; a function that only
  reads returns its value. The browser's answers are the first argument.
\<close>

definition isPassiveEventListenerSupported :: "browser \<Rightarrow> bool" where
  "isPassiveEventListenerSupported B = passiveSupported B"

definition getStickyMargins :: "browser \<Rightarrow> sticky \<Rightarrow> world \<Rightarrow> margins result \<times> world" where
  "getStickyMargins B s w =
     bind_r (classList_add (activeClass s) w) (\<lambda>_ w1.
       let stickyMargins = \<lparr>marginBottom = computedStyle B w1 Element ''marginBottom'',
                            marginTop = computedStyle B w1 Element ''marginTop''\<rparr>
       in bind_r (classList_remove (activeClass s) w1) (\<lambda>_ w2. (Return stickyMargins, w2)))"

text \<open>The result \<open>None\<close> is the source's \<open>undefined\<close>.\<close>

definition getComputedZIndex :: "browser \<Rightarrow> world \<Rightarrow> jsnum option \<times> world" where
  "getComputedZIndex B w =
     (let position = el_style w ''position'';
          w1 = set_el_style ''position'' (Txt ''relative'') w;
          zIndex = Number_of (computedStyle B w1 Element ''zIndex'');
          w2 = set_el_style ''position'' position w1
      in (case zIndex of NaN \<Rightarrow> None | _ \<Rightarrow> Some zIndex, w2))"

definition getZIndex :: "browser \<Rightarrow> string \<Rightarrow> world \<Rightarrow> jsnum result \<times> world" where
  "getZIndex B sel w =
     (case getComputedZIndex B w of
        (Some zIndex, w1) \<Rightarrow> (Return zIndex, w1)
      | (None, w1) \<Rightarrow>
          (case querySelectorAll B w1 sel of
             None \<Rightarrow> (Throw SyntaxError, w1)
           | Some stickyElements \<Rightarrow> (Return (Num (real_of_int (indexOf stickyElements Element + 1))), w1)))"

text \<open>The object of pixel strings, read at a property name.\<close>

definition convertNumbersToPixels :: "rect \<Rightarrow> string \<Rightarrow> sval" where
  "convertNumbersToPixels propertiesHash property =
     (if property = ''width'' then Px (Num (rect_width propertiesHash))
      else if property = ''height'' then Px (Num (rect_height propertiesHash))
      else if property = ''left'' then Px (Num (rect_left propertiesHash))
      else if property = ''top'' then Px (Num (rect_top propertiesHash))
      else if property = ''bottom'' then Px (Num (rect_bottom propertiesHash))
      else Txt ''undefined'')"

definition cleanUp :: "sticky \<Rightarrow> world \<Rightarrow> unit result \<times> world" where
  "cleanUp s w =
     (let w1 = resetStyleProperties set_el_style
                 (properties @ [''marginTop'', ''marginBottom'', ''top'', ''bottom'']) w
      in case getData w of
           None \<Rightarrow> (Throw TypeError, w1)
         | Some d \<Rightarrow>
             (let w2 = set_el_style ''position'' (position d) w1
              in (Return (),
                  if ph_parent (placeholder d)
                  then w2\<lparr>el_store := map_option
                            (\<lambda>d'. d'\<lparr>placeholder := (placeholder d')\<lparr>ph_parent := False\<rparr>\<rparr>) (el_store w2)\<rparr>
                  else w2)))"

text \<open>
  \<open>element.parentNode\<close> is null for an element outside of the document, and reading the
  bounding rectangle of null is a TypeError.
\<close>

definition hasParent :: "world \<Rightarrow> node \<Rightarrow> bool" where
  "hasParent w n =
     (case n of
        Element \<Rightarrow> el_parent w
      | Placeholder \<Rightarrow> (case el_store w of Some d \<Rightarrow> ph_parent (placeholder d) | None \<Rightarrow> False)
      | Other _ \<Rightarrow> True)"

definition calculateBoundaries :: "browser \<Rightarrow> world \<Rightarrow> node \<Rightarrow> margins \<Rightarrow> boundaries result" where
  "calculateBoundaries B w element stickyMargins =
     (if \<not> hasParent w element then Throw TypeError
      else
        let elementStyle = computedStyle B w element;
            parentStyle = parentRect B w element;
            boundaries =
              (if elementStyle ''top'' \<noteq> ''auto''
               then \<lparr>b_start = js_sub (Num (rect_top (boundingRect B w element)))
                                      (parseFloat (elementStyle ''top'')),
                     b_end = js_sub (Num (rect_bottom parentStyle))
                                    (or0 (parseFloat (marginBottom stickyMargins)))\<rparr>
               else \<lparr>b_start = js_add (Num (rect_bottom (boundingRect B w element)))
                                      (parseFloat (elementStyle ''bottom'')),
                     b_end = js_add (Num (rect_top parentStyle))
                                    (or0 (parseFloat (marginTop stickyMargins)))\<rparr>)
        in Return \<lparr>b_start = js_add (b_start boundaries) (Num (pageYOffset B)),
                   b_end = js_add (b_end boundaries) (Num (pageYOffset B))\<rparr>)"

definition updatePlaceholderStyle :: "browser \<Rightarrow> world \<Rightarrow> unit result \<times> world" where
  "updatePlaceholderStyle B w =
     (let startPosition = boundingRect B w Element
      in case getData w of
           None \<Rightarrow> (Throw TypeError, w)
         | Some _ \<Rightarrow>
             (let w1 = copyStyleProperties set_ph_style
                         (\<lambda>w' property. Txt (computedStyle B w' Element property))
                         [''top'', ''bottom'', ''marginTop'', ''marginBottom'', ''marginLeft'',
                          ''marginRight''] w;
                  w2 = copyStyleProperties set_ph_style
                         (\<lambda>w'. convertNumbersToPixels startPosition)
                         [''width'', ''height'', ''left''] w1
              in (Return (), w2)))"

subsection \<open>The scroll handler\<close>

definition startSticky :: "browser \<Rightarrow> sticky \<Rightarrow> world \<Rightarrow> unit result \<times> world" where
  "startSticky B s w =
     bind_r (updatePlaceholderStyle B w) (\<lambda>_ w1.
       let w2 = w1\<lparr>el_store := map_option (\<lambda>d. d\<lparr>position := el_style w1 ''position''\<rparr>) (el_store w1)\<rparr>;
           w3 = copyStyleProperties set_el_style (\<lambda>w' property. Txt ''fixed'') [''position''] w2;
           w4 = copyStyleProperties set_el_style get_ph_style properties w3
       in if \<not> el_parent w4 then (Throw TypeError, w4)
          else
            let w5 = w4\<lparr>el_store := map_option
                          (\<lambda>d. d\<lparr>placeholder := (placeholder d)\<lparr>ph_parent := True\<rparr>\<rparr>) (el_store w4)\<rparr>;
                w6 = fireEvent ''stickystart'' w5
            in classList_add (activeClass s) w6)"

definition endSticky :: "sticky \<Rightarrow> world \<Rightarrow> unit result \<times> world" where
  "endSticky s w =
     bind_r (cleanUp s w) (\<lambda>_ w1.
       classList_remove (activeClass s) (fireEvent ''stickyend'' w1))"

definition getBoundaries :: "browser \<Rightarrow> scroll_fn \<Rightarrow> world \<Rightarrow> bool \<Rightarrow> boundaries result" where
  "getBoundaries B f w isSticking =
     (case getData w of
        None \<Rightarrow> Throw TypeError
      | Some _ \<Rightarrow>
          if isSticking then calculateBoundaries B w Placeholder (fn_margins f)
          else calculateBoundaries B w Element (fn_margins f))"

text \<open>The constants \<open>height\<close>, \<open>gap\<close> and \<open>isInRange\<close> of the two handlers.\<close>

definition elementHeight :: "browser \<Rightarrow> world \<Rightarrow> jsnum" where
  "elementHeight B w = or0 (parseFloat (computedStyle B w Element ''height''))"

definition gapTop :: "browser \<Rightarrow> world \<Rightarrow> boundaries \<Rightarrow> jsnum" where
  "gapTop B w b = js_sub (js_sub (b_end b) (elementHeight B w)) (Num (pageYOffset B))"

definition isInRangeTop :: "browser \<Rightarrow> boundaries \<Rightarrow> bool" where
  "isInRangeTop B b =
     (js_ge (Num (pageYOffset B)) (b_start b) \<and> js_le (Num (pageYOffset B)) (b_end b))"

definition windowBottom :: "browser \<Rightarrow> jsnum" where
  "windowBottom B = js_add (Num (pageYOffset B)) (Num (innerHeight B))"

definition gapBottom :: "browser \<Rightarrow> world \<Rightarrow> boundaries \<Rightarrow> jsnum" where
  "gapBottom B w b = js_sub (js_add (b_end b) (elementHeight B w)) (windowBottom B)"

definition isInRangeBottom :: "browser \<Rightarrow> boundaries \<Rightarrow> bool" where
  "isInRangeBottom B b =
     (js_le (windowBottom B) (b_start b) \<and> js_ge (windowBottom B) (b_end b))"

definition stickToTop :: "browser \<Rightarrow> scroll_fn \<Rightarrow> world \<Rightarrow> unit result \<times> world" where
  "stickToTop B f w =
     (case getData w of
        None \<Rightarrow> (Throw TypeError, w)
      | Some d \<Rightarrow>
          (let isAdded = ph_parent (placeholder d)
           in case getBoundaries B f w isAdded of
                Throw e \<Rightarrow> (Throw e, w)
              | Return boundaries \<Rightarrow>
                  (let gap = gapTop B w boundaries
                   in if isInRangeTop B boundaries then
                        bind_r (if \<not> isAdded then startSticky B (fn_sticky f) w else (Return (), w))
                          (\<lambda>_ w1. (Return (),
                             set_el_style ''top''
                               (if js_ge (js_sub gap (fn_distance f)) (Num 0) then Txt '''' else Px gap) w1))
                      else if isAdded then endSticky (fn_sticky f) w
                      else (Return (), w))))"

definition stickToBottom :: "browser \<Rightarrow> scroll_fn \<Rightarrow> world \<Rightarrow> unit result \<times> world" where
  "stickToBottom B f w =
     (case getData w of
        None \<Rightarrow> (Throw TypeError, w)
      | Some d \<Rightarrow>
          (let isAdded = ph_parent (placeholder d)
           in case getBoundaries B f w isAdded of
                Throw e \<Rightarrow> (Throw e, w)
              | Return boundaries \<Rightarrow>
                  (let gap = gapBottom B w boundaries
                   in if isInRangeBottom B boundaries then
                        bind_r (if \<not> isAdded then startSticky B (fn_sticky f) w else (Return (), w))
                          (\<lambda>_ w1. (Return (),
                             set_el_style ''bottom''
                               (if js_le (js_add gap (fn_distance f)) (Num 0) then Txt ''''
                                else Px (js_neg gap)) w1))
                      else if isAdded then endSticky (fn_sticky f) w
                      else (Return (), w))))"

text \<open>Creating the scroll handler, and calling the function it is.\<close>

definition onScroll :: "browser \<Rightarrow> sticky \<Rightarrow> world \<Rightarrow> scroll_fn result \<times> world" where
  "onScroll B s w =
     bind_r (getStickyMargins B s w) (\<lambda>stickyMargins w1.
       let elementStyle = computedStyle B w1 Element;
           distanceFromSide = (if elementStyle ''top'' \<noteq> ''auto''
                               then parseFloat (elementStyle ''top'')
                               else parseFloat (elementStyle ''bottom''))
       in (Return \<lparr>fn_id = next_fn w1, fn_sticky = s,
                   fn_side = (if elementStyle ''top'' \<noteq> ''auto'' then StickToTop else StickToBottom),
                   fn_margins = stickyMargins, fn_distance = distanceFromSide\<rparr>,
           w1\<lparr>next_fn := Suc (next_fn w1)\<rparr>))"

definition call_scroll :: "browser \<Rightarrow> scroll_fn \<Rightarrow> world \<Rightarrow> unit result \<times> world" where
  "call_scroll B f w =
     (case fn_side f of StickToTop \<Rightarrow> stickToTop B f w | StickToBottom \<Rightarrow> stickToBottom B f w)"

definition onResize :: "sticky \<Rightarrow> world \<Rightarrow> resize_fn \<times> world" where
  "onResize s w = (\<lparr>rfn_id = next_fn w, rfn_sticky = s\<rparr>, w\<lparr>next_fn := Suc (next_fn w)\<rparr>)"

subsection \<open>Binding, init and destroy\<close>

definition bindEvents :: "browser \<Rightarrow> world \<Rightarrow> unit result \<times> world" where
  "bindEvents B w =
     (case getData w of
        None \<Rightarrow> (Throw TypeError, w)
      | Some d \<Rightarrow>
          (let w1 = addEventListener ''load'' (ScrollFn (scroll (handlers d))) Unspecified w;
               w2 = addEventListener ''scroll'' (ScrollFn (scroll (handlers d)))
                      (if isPassiveEventListenerSupported B then scrollOptions else UseCapture False) w1;
               w3 = addEventListener ''resize'' (ResizeFn (resize (handlers d))) Unspecified w2
           in (Return (), w3)))"

definition unbindEvents :: "browser \<Rightarrow> world \<Rightarrow> unit result \<times> world" where
  "unbindEvents B w =
     (case getData w of
        None \<Rightarrow> (Throw TypeError, w)
      | Some d \<Rightarrow>
          (let w1 = removeEventListener ''load'' (ScrollFn (scroll (handlers d))) Unspecified w;
               w2 = removeEventListener ''scroll'' (ScrollFn (scroll (handlers d)))
                      (if isPassiveEventListenerSupported B then scrollOptions else UseCapture False) w1;
               w3 = removeEventListener ''resize'' (ResizeFn (resize (handlers d))) Unspecified w2
           in (Return (), w3)))"

text \<open>
  \<open>Object.assign(target, ...sources)\<close> copies the properties of each source into the
  target, from left to right, and returns the target; it writes to the target only. The
  result is the target together with the sources as the call leaves them.
\<close>

definition Object_assign ::
  "(string \<rightharpoonup> string) \<Rightarrow> (string \<rightharpoonup> string) list \<Rightarrow> (string \<rightharpoonup> string) \<times> (string \<rightharpoonup> string) list" where
  "Object_assign target sources = (foldl (++) target sources, sources)"

text \<open>
  The constructor: \<open>this.settings = Object.assign({}, defaults, options)\<close>, and the
  options object as the constructor leaves it.
\<close>

definition Sticky :: "(string \<rightharpoonup> string) \<Rightarrow> sticky" where
  "Sticky options = \<lparr>settings = fst (Object_assign Map.empty [defaults, options])\<rparr>"

definition options_after_Sticky :: "(string \<rightharpoonup> string) \<Rightarrow> (string \<rightharpoonup> string)" where
  "options_after_Sticky options = snd (Object_assign Map.empty [defaults, options]) ! 1"

text \<open>\<open>store.getData(element, 'handlers').scroll()\<close>\<close>

definition call_stored_scroll :: "browser \<Rightarrow> world \<Rightarrow> unit result \<times> world" where
  "call_stored_scroll B w =
     (case getData w of
        None \<Rightarrow> (Throw TypeError, w)
      | Some d \<Rightarrow> call_scroll B (scroll (handlers d)) w)"

definition init :: "browser \<Rightarrow> sticky \<Rightarrow> world \<Rightarrow> unit result \<times> world" where
  "init B s w =
     (case getData w of
        Some _ \<Rightarrow> (Throw (Error ''This element has already been initialized''), w)
      | None \<Rightarrow>
          (let ph = \<lparr>ph_nodeName = el_nodeName w, ph_style = (\<lambda>_. Txt ''''), ph_parent = False\<rparr>
           in bind_r (onScroll B s w) (\<lambda>scrollFn w1.
                let (resizeFn, w2) = onResize s w1;
                    w3 = setData \<lparr>placeholder = ph,
                                  handlers = \<lparr>scroll = scrollFn, resize = resizeFn\<rparr>,
                                  position = el_style w2 ''position''\<rparr> w2
                in bind_r (getZIndex B (selector s) w3) (\<lambda>zIndex w4.
                     let w5 = copyStyleProperties set_ph_style
                                (\<lambda>w' property. if property = ''visibility'' then Txt ''hidden''
                                                else if property = ''zIndex'' then NumV zIndex
                                                else Txt ''undefined'')
                                [''visibility'', ''zIndex''] w4
                     in bind_r (updatePlaceholderStyle B w5) (\<lambda>_ w6.
                          bind_r (bindEvents B w6) (\<lambda>_ w7.
                            call_stored_scroll B w7))))))"

definition destroy :: "browser \<Rightarrow> sticky \<Rightarrow> world \<Rightarrow> unit result \<times> world" where
  "destroy B s w =
     bind_r (cleanUp s w) (\<lambda>_ w1.
       bind_r (unbindEvents B w1) (\<lambda>_ w2.
         (Return (), removeData w2)))"

text \<open>The function \<open>onResize\<close> returns, called.\<close>

definition call_resize :: "browser \<Rightarrow> resize_fn \<Rightarrow> world \<Rightarrow> unit result \<times> world" where
  "call_resize B f w =
     bind_r (destroy B (rfn_sticky f) w) (\<lambda>_ w1.
       bind_r (init B (rfn_sticky f) w1) (\<lambda>_ w2.
         call_stored_scroll B w2))"

section \<open>Runs of handler invocations\<close>

text \<open>A class name the class list accepts: not empty, and without white space.\<close>

definition valid_token :: "string \<Rightarrow> bool" where
  "valid_token c = (c \<noteq> [] \<and> \<not> list_ex is_space c)"

text \<open>
  Whether the placeholder has a parent node, and whether the element carries the active
  class of the Sticky object that built the stored handlers.
\<close>

definition isAdded :: "world \<Rightarrow> bool" where
  "isAdded w = (case getData w of Some d \<Rightarrow> ph_parent (placeholder d) | None \<Rightarrow> False)"

definition hasActiveClass :: "world \<Rightarrow> bool" where
  "hasActiveClass w =
     (case getData w of
        Some d \<Rightarrow> activeClass (fn_sticky (scroll (handlers d))) \<in> set (el_classes w)
      | None \<Rightarrow> False)"

text \<open>The range test a scroll handler makes when it is called in a state.\<close>

definition inRange :: "browser \<Rightarrow> scroll_fn \<Rightarrow> world \<Rightarrow> bool" where
  "inRange B f w =
     (case getBoundaries B f w (isAdded w) of
        Throw _ \<Rightarrow> False
      | Return b \<Rightarrow>
          (case fn_side f of StickToTop \<Rightarrow> isInRangeTop B b | StickToBottom \<Rightarrow> isInRangeBottom B b))"

definition stored_inRange :: "browser \<Rightarrow> world \<Rightarrow> bool" where
  "stored_inRange B w =
     (case getData w of Some d \<Rightarrow> inRange B (scroll (handlers d)) w | None \<Rightarrow> False)"

text \<open>
  A scroll tick is the browser calling the stored scroll handler, with the layout and the
  scroll offset of that moment. A run of ticks stops at the first handler that throws.
\<close>

fun scroll_ticks :: "browser list \<Rightarrow> world \<Rightarrow> unit result \<times> world" where
  "scroll_ticks [] w = (Return (), w)"
| "scroll_ticks (B # Bs) w = bind_r (call_stored_scroll B w) (\<lambda>_. scroll_ticks Bs)"

text \<open>The outcome of the range test at each tick of a run.\<close>

fun range_trace :: "browser list \<Rightarrow> world \<Rightarrow> bool list" where
  "range_trace [] w = []"
| "range_trace (B # Bs) w = stored_inRange B w # range_trace Bs (snd (call_stored_scroll B w))"

text \<open>
  The events that a sequence of range-test outcomes calls for, given the side the previous
  tick was on: one \<open>stickystart\<close> for each passage from outside to inside, one
  \<open>stickyend\<close> for each passage from inside to outside, nothing otherwise.
\<close>

fun transition_events :: "bool \<Rightarrow> bool list \<Rightarrow> string list" where
  "transition_events prev [] = []"
| "transition_events prev (r # rs) =
     (if r \<and> \<not> prev then [''stickystart'']
      else if \<not> r \<and> prev then [''stickyend'']
      else []) @ transition_events r rs"

text \<open>Scroll and resize events, each with the browser's answers of its moment.\<close>

datatype tick = ScrollTick browser | ResizeTick browser

definition call_stored_resize :: "browser \<Rightarrow> world \<Rightarrow> unit result \<times> world" where
  "call_stored_resize B w =
     (case getData w of
        None \<Rightarrow> (Throw TypeError, w)
      | Some d \<Rightarrow> call_resize B (resize (handlers d)) w)"

fun run_ticks :: "tick list \<Rightarrow> world \<Rightarrow> unit result \<times> world" where
  "run_ticks [] w = (Return (), w)"
| "run_ticks (ScrollTick B # ts) w = bind_r (call_stored_scroll B w) (\<lambda>_. run_ticks ts)"
| "run_ticks (ResizeTick B # ts) w = bind_r (call_stored_resize B w) (\<lambda>_. run_ticks ts)"

text \<open>What one call of a scroll handler leaves behind, given the outcome of its range test.\<close>

definition tick_post :: "scroll_fn \<Rightarrow> bool \<Rightarrow> world \<Rightarrow> data \<Rightarrow> world \<Rightarrow> bool" where
  "tick_post f r w d w' =
     (\<exists>d'. el_store w' = Some d'
        \<and> ph_parent (placeholder d') = r
        \<and> handlers d' = handlers d
        \<and> position d' = (if r \<and> \<not> ph_parent (placeholder d) then el_style w ''position'' else position d)
        \<and> el_parent w' = el_parent w
        \<and> listeners w' = listeners w
        \<and> next_fn w' = next_fn w
        \<and> el_nodeName w' = el_nodeName w
        \<and> dispatched w' = dispatched w @ transition_events (ph_parent (placeholder d)) [r]
        \<and> el_classes w' =
            (if r \<and> \<not> ph_parent (placeholder d)
             then (if activeClass (fn_sticky f) \<in> set (el_classes w) then el_classes w
                   else el_classes w @ [activeClass (fn_sticky f)])
             else if \<not> r \<and> ph_parent (placeholder d)
             then removeAll (activeClass (fn_sticky f)) (el_classes w)
             else el_classes w)
        \<and> el_style w' ''position'' =
            (if r \<and> \<not> ph_parent (placeholder d) then Txt ''fixed''
             else if \<not> r \<and> ph_parent (placeholder d) then position d
             else el_style w ''position''))"

text \<open>
  Closures are numbered from the counter, so in a state the library has produced every
  listener's number is below it. The three listeners \<open>bindEvents\<close> registers.
\<close>

definition fresh_ids :: "world \<Rightarrow> bool" where
  "fresh_ids w = list_all (\<lambda>l. fn_ident (l_fn l) < next_fn w) (listeners w)"

definition bound_listeners :: "browser \<Rightarrow> handlers \<Rightarrow> listener list" where
  "bound_listeners B h =
     [\<lparr>l_type = ''load'', l_fn = ScrollFn (scroll h), l_capture = False, l_passive = False\<rparr>,
      \<lparr>l_type = ''scroll'', l_fn = ScrollFn (scroll h), l_capture = False,
        l_passive = passiveSupported B\<rparr>,
      \<lparr>l_type = ''resize'', l_fn = ResizeFn (resize h), l_capture = False, l_passive = False\<rparr>]"

text \<open>
  The state of an element that a Sticky object \<open>s\<close> has initialized and nobody has
  destroyed, where \<open>p0\<close> was the inline \<open>position\<close> before \<open>init\<close>: the element is in
  the document, the stored handlers are those of \<open>s\<close>, the saved position is \<open>p0\<close>, the
  element carries the active class exactly when the placeholder is attached, and its
  inline \<open>position\<close> is \<open>fixed\<close> when the placeholder is attached and \<open>p0\<close> when not.
\<close>

definition sticky_inv :: "sticky \<Rightarrow> sval \<Rightarrow> world \<Rightarrow> bool" where
  "sticky_inv s p0 w =
     (el_parent w \<and> valid_token (activeClass s) \<and>
      (case el_store w of
         None \<Rightarrow> False
       | Some d \<Rightarrow>
           fn_sticky (scroll (handlers d)) = s \<and> rfn_sticky (resize (handlers d)) = s
           \<and> position d = p0
           \<and> (ph_parent (placeholder d) = (activeClass s \<in> set (el_classes w)))
           \<and> el_style w ''position'' = (if ph_parent (placeholder d) then Txt ''fixed'' else p0)))"

section \<open>The earlier copy of the library\<close>

text \<open>
  Beside the current module the repository keeps an earlier copy of
  \<open>audero-sticky.js\<close>, a UMD module that carries its own store, style, class and event
  helpers. Its functions are modelled here up to \<open>init\<close> and \<open>destroy\<close>, on a state of
  their own and under the suffix \<open>_umd\<close> where the current module has a function of the
  same name. The earlier copy keeps the class names in the \<open>className\<close> string, builds
  the store entry one property at a time, converts the sticky margins with the operator
  \<open>~~\<close>, binds its listeners without options and lets \<open>cleanUp\<close> reset eight
  properties.
\<close>

text \<open>
  The operator \<open>~\<close> applied twice converts a number to a 32-bit integer: \<open>NaN\<close> and the
  infinities give 0, any other number is truncated toward zero and taken modulo
  \<open>2 ^ 32\<close> into the signed range.
\<close>

definition to_int32 :: "jsnum \<Rightarrow> jsnum" where
  "to_int32 x =
     (case x of
        Num r \<Rightarrow>
          (let i = (if 0 \<le> r then \<lfloor>r\<rfloor> else - \<lfloor>- r\<rfloor>);
               m = i mod 2 ^ 32
           in Num (real_of_int (if 2 ^ 31 \<le> m then m - 2 ^ 32 else m)))
      | _ \<Rightarrow> Num 0)"

text \<open>
  The object kept on the element under the namespace. A property that has not been set
  yet is \<open>None\<close>, the source's \<open>undefined\<close>.
\<close>

record udata =
  u_placeholder :: "placeholder_el option"
  u_handlers :: "handlers option"
  u_position :: "sval option"

record uworld =
  u_nodeName :: string
  u_parent :: bool
  u_style :: "string \<Rightarrow> sval"
  u_className :: string
  u_store :: "udata option"
  u_listeners :: "listener list"
  u_next_fn :: nat

text \<open>
  The browser's answers to the earlier copy. \<open>u_regexTest c s\<close> is the result of
  \<open>test\<close> on the string \<open>s\<close> for the regular expression made of the text \<open>c\<close> between
  two word boundaries, and \<open>u_regexRemove c s\<close> is \<open>s\<close> with the first match of that
  expression replaced by the empty string; both are \<open>None\<close> when the text does not make
  a regular expression and the constructor throws a SyntaxError.
\<close>

record ubrowser =
  u_computedStyle :: "uworld \<Rightarrow> node \<Rightarrow> string \<Rightarrow> string"
  u_boundingRect :: "uworld \<Rightarrow> node \<Rightarrow> rect"
  u_parentRect :: "uworld \<Rightarrow> node \<Rightarrow> rect"
  u_querySelectorAll :: "uworld \<Rightarrow> string \<Rightarrow> node list option"
  u_passiveSupported :: bool
  u_pageYOffset :: real
  u_regexTest :: "string \<Rightarrow> string \<Rightarrow> bool option"
  u_regexRemove :: "string \<Rightarrow> string \<Rightarrow> string option"

subsection \<open>Its helpers\<close>

text \<open>\<open>getData\<close> without a property name, and with one.\<close>

definition getData_umd :: "uworld \<Rightarrow> udata option" where
  "getData_umd w = u_store w"

definition getData_property :: "uworld \<Rightarrow> (udata \<Rightarrow> 'a option) \<Rightarrow> 'a option" where
  "getData_property w property = (case u_store w of Some d \<Rightarrow> property d | None \<Rightarrow> None)"

text \<open>\<open>setData\<close> with a property name; the assignment to that property is the argument.\<close>

definition setData_umd :: "(udata \<Rightarrow> udata) \<Rightarrow> uworld \<Rightarrow> uworld" where
  "setData_umd assign w =
     w\<lparr>u_store := Some (assign (case u_store w of
                                  Some d \<Rightarrow> d
                                | None \<Rightarrow> \<lparr>u_placeholder = None, u_handlers = None,
                                            u_position = None\<rparr>))\<rparr>"

definition removeData_umd :: "uworld \<Rightarrow> uworld" where
  "removeData_umd w = w\<lparr>u_store := None\<rparr>"

text \<open>An empty string is falsy, so the default replaces it.\<close>

definition mergeSettings :: "(string \<rightharpoonup> string) \<Rightarrow> (string \<rightharpoonup> string)" where
  "mergeSettings settings' =
     (\<lambda>property. case defaults property of
                    None \<Rightarrow> None
                  | Some dv \<Rightarrow>
                      (case settings' property of
                         None \<Rightarrow> Some dv
                       | Some v \<Rightarrow> if v = [] then Some dv else Some v))"

definition Sticky_umd :: "(string \<rightharpoonup> string) \<Rightarrow> sticky" where
  "Sticky_umd options = \<lparr>settings = mergeSettings options\<rparr>"

definition trim :: "string \<Rightarrow> string" where
  "trim s = rev (dropWhile is_space (rev (dropWhile is_space s)))"

definition addClass :: "ubrowser \<Rightarrow> string \<Rightarrow> uworld \<Rightarrow> unit result \<times> uworld" where
  "addClass B className w =
     (case u_regexTest B className (u_className w) of
        None \<Rightarrow> (Throw SyntaxError, w)
      | Some True \<Rightarrow> (Return (), w)
      | Some False \<Rightarrow> (Return (), w\<lparr>u_className := u_className w @ '' '' @ className\<rparr>))"

definition removeClass :: "ubrowser \<Rightarrow> string \<Rightarrow> uworld \<Rightarrow> unit result \<times> uworld" where
  "removeClass B className w =
     (case u_regexRemove B className (u_className w) of
        None \<Rightarrow> (Throw SyntaxError, w)
      | Some s \<Rightarrow> (Return (), w\<lparr>u_className := trim s\<rparr>))"

definition set_u_style :: "string \<Rightarrow> sval \<Rightarrow> uworld \<Rightarrow> uworld" where
  "set_u_style p v w = w\<lparr>u_style := (u_style w)(p := v)\<rparr>"

definition set_uph_style :: "string \<Rightarrow> sval \<Rightarrow> uworld \<Rightarrow> uworld" where
  "set_uph_style p v w =
     w\<lparr>u_store := map_option
        (\<lambda>d. d\<lparr>u_placeholder := map_option (\<lambda>ph. ph\<lparr>ph_style := (ph_style ph)(p := v)\<rparr>)
                                          (u_placeholder d)\<rparr>)
        (u_store w)\<rparr>"

definition resetStyleProperties_umd ::
  "(string \<Rightarrow> sval \<Rightarrow> uworld \<Rightarrow> uworld) \<Rightarrow> string list \<Rightarrow> uworld \<Rightarrow> uworld" where
  "resetStyleProperties_umd style ps w = fold (\<lambda>property. style property (Txt [])) ps w"

definition copyStyleProperties_umd ::
  "(string \<Rightarrow> sval \<Rightarrow> uworld \<Rightarrow> uworld) \<Rightarrow> (uworld \<Rightarrow> string \<Rightarrow> sval) \<Rightarrow> string list \<Rightarrow> uworld \<Rightarrow> uworld" where
  "copyStyleProperties_umd style blueprintStyle ps w =
     fold (\<lambda>property w'. style property (blueprintStyle w' property) w') ps w"

definition addEventListener_umd :: "string \<Rightarrow> fnref \<Rightarrow> listener_options \<Rightarrow> uworld \<Rightarrow> uworld" where
  "addEventListener_umd t f opts w =
     (if list_ex (\<lambda>l. l_type l = t \<and> fn_ident (l_fn l) = fn_ident f \<and> l_capture l = capture_of opts)
           (u_listeners w)
      then w
      else w\<lparr>u_listeners := u_listeners w @
             [\<lparr>l_type = t, l_fn = f, l_capture = capture_of opts, l_passive = passive_of opts\<rparr>]\<rparr>)"

definition removeEventListener_umd :: "string \<Rightarrow> fnref \<Rightarrow> listener_options \<Rightarrow> uworld \<Rightarrow> uworld" where
  "removeEventListener_umd t f opts w =
     w\<lparr>u_listeners := filter
        (\<lambda>l. \<not> (l_type l = t \<and> fn_ident (l_fn l) = fn_ident f \<and> l_capture l = capture_of opts))
        (u_listeners w)\<rparr>"

subsection \<open>Its functions\<close>

definition getStickyMargins_umd :: "ubrowser \<Rightarrow> sticky \<Rightarrow> uworld \<Rightarrow> margins result \<times> uworld" where
  "getStickyMargins_umd B s w =
     bind_r (addClass B (activeClass s) w) (\<lambda>_ w1.
       let stickyMargins = \<lparr>marginBottom = u_computedStyle B w1 Element ''marginBottom'',
                            marginTop = u_computedStyle B w1 Element ''marginTop''\<rparr>
       in bind_r (removeClass B (activeClass s) w1) (\<lambda>_ w2. (Return stickyMargins, w2)))"

definition getZIndex_umd :: "ubrowser \<Rightarrow> string \<Rightarrow> uworld \<Rightarrow> jsnum result" where
  "getZIndex_umd B sel w =
     (case u_querySelectorAll B w sel of
        None \<Rightarrow> Throw SyntaxError
      | Some stickyElements \<Rightarrow> Return (Num (real_of_int (indexOf stickyElements Element + 1))))"

text \<open>
  \<open>cleanUp\<close> of the earlier copy resets the properties of the placeholder and the two
  vertical margins; \<open>top\<close> and \<open>bottom\<close> are not in its list. A position that was never
  stored is assigned as \<open>undefined\<close>.
\<close>

definition cleanUp_umd :: "uworld \<Rightarrow> unit result \<times> uworld" where
  "cleanUp_umd w =
     (let w1 = resetStyleProperties_umd set_u_style
                 (properties @ [''marginTop'', ''marginBottom'']) w
      in case getData_umd w of
           None \<Rightarrow> (Throw TypeError, w1)
         | Some d \<Rightarrow>
             (let w2 = set_u_style ''position''
                         (case u_position d of Some p \<Rightarrow> p | None \<Rightarrow> Txt ''undefined'') w1
              in (Return (),
                  if (case u_placeholder d of Some ph \<Rightarrow> ph_parent ph | None \<Rightarrow> False)
                  then w2\<lparr>u_store := map_option
                            (\<lambda>d'. d'\<lparr>u_placeholder :=
                                       map_option (\<lambda>ph. ph\<lparr>ph_parent := False\<rparr>) (u_placeholder d')\<rparr>)
                            (u_store w2)\<rparr>
                  else w2)))"

definition hasParent_umd :: "uworld \<Rightarrow> node \<Rightarrow> bool" where
  "hasParent_umd w n =
     (case n of
        Element \<Rightarrow> u_parent w
      | Placeholder \<Rightarrow> (case getData_property w u_placeholder of
                          Some ph \<Rightarrow> ph_parent ph
                        | None \<Rightarrow> False)
      | Other _ \<Rightarrow> True)"

definition calculateBoundaries_umd :: "ubrowser \<Rightarrow> uworld \<Rightarrow> node \<Rightarrow> margins \<Rightarrow> boundaries result" where
  "calculateBoundaries_umd B w element stickyMargins =
     (if \<not> hasParent_umd w element then Throw TypeError
      else
        let elementStyle = u_computedStyle B w element;
            parentStyle = u_parentRect B w element;
            boundaries =
              (if elementStyle ''top'' \<noteq> ''auto''
               then \<lparr>b_start = js_sub (Num (rect_top (u_boundingRect B w element)))
                                      (parseFloat (elementStyle ''top'')),
                     b_end = js_sub (Num (rect_bottom parentStyle))
                                    (to_int32 (parseFloat (marginBottom stickyMargins)))\<rparr>
               else \<lparr>b_start = js_add (Num (rect_bottom (u_boundingRect B w element)))
                                      (parseFloat (elementStyle ''bottom'')),
                     b_end = js_add (Num (rect_top parentStyle))
                                    (to_int32 (parseFloat (marginTop stickyMargins)))\<rparr>)
        in Return \<lparr>b_start = js_add (b_start boundaries) (Num (u_pageYOffset B)),
                   b_end = js_add (b_end boundaries) (Num (u_pageYOffset B))\<rparr>)"

definition updatePlaceholderStyle_umd :: "ubrowser \<Rightarrow> uworld \<Rightarrow> unit result \<times> uworld" where
  "updatePlaceholderStyle_umd B w =
     (let startPosition = u_boundingRect B w Element
      in case getData_property w u_placeholder of
           None \<Rightarrow> (Throw TypeError, w)
         | Some _ \<Rightarrow>
             (let w1 = copyStyleProperties_umd set_uph_style
                         (\<lambda>w' property. Txt (u_computedStyle B w' Element property))
                         [''top'', ''bottom'', ''marginTop'', ''marginBottom'', ''marginLeft'',
                          ''marginRight''] w;
                  w2 = copyStyleProperties_umd set_uph_style
                         (\<lambda>w'. convertNumbersToPixels startPosition)
                         [''width'', ''height'', ''left''] w1
              in (Return (), w2)))"

text \<open>
  \<open>onScroll\<close> of the earlier copy computes the boundaries once while it builds the
  handler, so it throws for an element without a parent node.
\<close>

definition onScroll_umd :: "ubrowser \<Rightarrow> sticky \<Rightarrow> uworld \<Rightarrow> scroll_fn result \<times> uworld" where
  "onScroll_umd B s w =
     bind_r (getStickyMargins_umd B s w) (\<lambda>stickyMargins w1.
       case calculateBoundaries_umd B w1 Element stickyMargins of
         Throw e \<Rightarrow> (Throw e, w1)
       | Return boundaries \<Rightarrow>
           (let elementStyle = u_computedStyle B w1 Element;
                distanceFromSide = (if elementStyle ''top'' \<noteq> ''auto''
                                    then parseFloat (elementStyle ''top'')
                                    else parseFloat (elementStyle ''bottom''))
            in (Return \<lparr>fn_id = u_next_fn w1, fn_sticky = s,
                        fn_side = (if elementStyle ''top'' \<noteq> ''auto'' then StickToTop
                                   else StickToBottom),
                        fn_margins = stickyMargins, fn_distance = distanceFromSide\<rparr>,
                w1\<lparr>u_next_fn := Suc (u_next_fn w1)\<rparr>)))"

definition onResize_umd :: "sticky \<Rightarrow> uworld \<Rightarrow> resize_fn \<times> uworld" where
  "onResize_umd s w = (\<lparr>rfn_id = u_next_fn w, rfn_sticky = s\<rparr>, w\<lparr>u_next_fn := Suc (u_next_fn w)\<rparr>)"

definition bindEvents_umd :: "uworld \<Rightarrow> unit result \<times> uworld" where
  "bindEvents_umd w =
     (case getData_property w u_handlers of
        None \<Rightarrow> (Throw TypeError, w)
      | Some handlers' \<Rightarrow>
          (Return (),
           addEventListener_umd ''resize'' (ResizeFn (resize handlers')) Unspecified
             (addEventListener_umd ''scroll'' (ScrollFn (scroll handlers')) Unspecified
               (addEventListener_umd ''load'' (ScrollFn (scroll handlers')) Unspecified w))))"

definition unbindEvents_umd :: "uworld \<Rightarrow> unit result \<times> uworld" where
  "unbindEvents_umd w =
     (case getData_property w u_handlers of
        None \<Rightarrow> (Throw TypeError, w)
      | Some handlers' \<Rightarrow>
          (Return (),
           removeEventListener_umd ''resize'' (ResizeFn (resize handlers')) Unspecified
             (removeEventListener_umd ''scroll'' (ScrollFn (scroll handlers')) Unspecified
               (removeEventListener_umd ''load'' (ScrollFn (scroll handlers')) Unspecified w))))"

text \<open>
  \<open>init\<close> of the earlier copy. The handlers are built before they are stored, the object
  literal being an argument of \<open>setData\<close>. The function ends with \<open>bindEvents\<close>.
\<close>

definition init_umd :: "ubrowser \<Rightarrow> sticky \<Rightarrow> uworld \<Rightarrow> unit result \<times> uworld" where
  "init_umd B s w =
     (case getData_umd w of
        Some _ \<Rightarrow> (Throw (Error ''This element has already been initialized''), w)
      | None \<Rightarrow>
          (let placeholder' = \<lparr>ph_nodeName = u_nodeName w, ph_style = (\<lambda>_. Txt []),
                               ph_parent = False\<rparr>;
               w1 = setData_umd (\<lambda>d. d\<lparr>u_placeholder := Some placeholder'\<rparr>) w
           in bind_r (onScroll_umd B s w1) (\<lambda>scroll' w2.
                let (resize', w3) = onResize_umd s w2;
                    w4 = setData_umd
                           (\<lambda>d. d\<lparr>u_handlers := Some \<lparr>scroll = scroll', resize = resize'\<rparr>\<rparr>) w3
                in case getZIndex_umd B (selector s) w4 of
                     Throw e \<Rightarrow> (Throw e, w4)
                   | Return zIndex \<Rightarrow>
                       (let w5 = copyStyleProperties_umd set_uph_style
                                   (\<lambda>w' property. if property = ''visibility'' then Txt ''hidden''
                                                   else if property = ''zIndex'' then NumV zIndex
                                                   else Txt ''undefined'')
                                   [''visibility'', ''zIndex''] w4
                        in bind_r (updatePlaceholderStyle_umd B w5) (\<lambda>_ w6. bindEvents_umd w6)))))"

definition destroy_umd :: "uworld \<Rightarrow> unit result \<times> uworld" where
  "destroy_umd w =
     bind_r (cleanUp_umd w) (\<lambda>_ w1.
       bind_r (unbindEvents_umd w1) (\<lambda>_ w2. (Return (), removeData_umd w2)))"

section \<open>A page to run the library on\<close>

text \<open>
  A parent 1000 pixels high that starts \<open>off\<close> pixels below the top of the document,
  with the element, 50 pixels high and 300 wide, 200 pixels below the parent's top; the
  viewport is 600 pixels high. The element's computed \<open>top\<close> and \<open>bottom\<close>, the
  offset of the parent and the scroll offset are parameters. Rectangles are relative to
  the viewport.
\<close>

definition demo_style :: "string \<Rightarrow> string \<Rightarrow> string \<Rightarrow> string" where
  "demo_style t b p =
     (if p = ''top'' then t
      else if p = ''bottom'' then b
      else if p = ''height'' then ''50px''
      else if p = ''zIndex'' then ''auto''
      else ''0px'')"

definition demo_browser :: "string \<Rightarrow> string \<Rightarrow> real \<Rightarrow> real \<Rightarrow> browser" where
  "demo_browser t b off y =
     \<lparr>computedStyle = (\<lambda>w n. demo_style t b),
      boundingRect = (\<lambda>w n. \<lparr>rect_top = off + 200 - y, rect_bottom = off + 250 - y, rect_left = 0,
                              rect_width = 300, rect_height = 50\<rparr>),
      parentRect = (\<lambda>w n. \<lparr>rect_top = off - y, rect_bottom = off + 1000 - y, rect_left = 0,
                            rect_width = 300, rect_height = 1000\<rparr>),
      querySelectorAll = (\<lambda>w sel. Some [Element]),
      passiveSupported = True,
      pageYOffset = y,
      innerHeight = 600\<rparr>"

definition demo_world :: world where
  "demo_world =
     \<lparr>el_nodeName = ''DIV'', el_parent = True, el_style = (\<lambda>_. Txt ''''),
      el_classes = [''sticky''], el_store = None, listeners = [], dispatched = [], next_fn = 0\<rparr>"

definition demo_margins :: margins where
  "demo_margins = \<lparr>marginBottom = ''0px'', marginTop = ''0px''\<rparr>"

text \<open>
  Two style sheets for the demo page: the element sticks to the top with \<open>top: 0\<close>,
  or it sticks to the bottom with \<open>bottom: 0\<close>, in a parent that starts 1000 pixels
  down the document. Each comes with the state that \<open>init\<close> leaves when it runs on the
  demo page scrolled to the top, where the element is out of range, and with the scroll
  handler that \<open>init\<close> builds there.
\<close>

definition top_page :: "real \<Rightarrow> browser" where
  "top_page y = demo_browser ''0px'' ''auto'' 0 y"

definition bottom_page :: "real \<Rightarrow> browser" where
  "bottom_page y = demo_browser ''auto'' ''0px'' 1000 y"

definition top_fn :: scroll_fn where
  "top_fn = \<lparr>fn_id = 0, fn_sticky = Sticky Map.empty, fn_side = StickToTop,
             fn_margins = demo_margins, fn_distance = Num 0\<rparr>"

definition bottom_fn :: scroll_fn where
  "bottom_fn = \<lparr>fn_id = 0, fn_sticky = Sticky Map.empty, fn_side = StickToBottom,
                fn_margins = demo_margins, fn_distance = Num 0\<rparr>"

definition demo_placeholder :: "string \<Rightarrow> string \<Rightarrow> placeholder_el" where
  "demo_placeholder t b =
     \<lparr>ph_nodeName = ''DIV'',
      ph_style = (\<lambda>p. if p = ''visibility'' then Txt ''hidden''
                      else if p = ''zIndex'' then NumV (Num 1)
                      else if p = ''width'' then Px (Num 300)
                      else if p = ''height'' then Px (Num 50)
                      else if p = ''left'' then Px (Num 0)
                      else if p \<in> set [''top'', ''bottom'', ''marginTop'', ''marginBottom'',
                                        ''marginLeft'', ''marginRight'']
                      then Txt (demo_style t b p)
                      else Txt ''''),
      ph_parent = False\<rparr>"

definition demo_initialized :: "string \<Rightarrow> string \<Rightarrow> scroll_fn \<Rightarrow> world" where
  "demo_initialized t b f =
     (let h = \<lparr>scroll = f, resize = \<lparr>rfn_id = 1, rfn_sticky = Sticky Map.empty\<rparr>\<rparr>
      in demo_world
           \<lparr>el_store := Some \<lparr>placeholder = demo_placeholder t b, handlers = h,
                               position = Txt ''''\<rparr>,
            listeners := bound_listeners (demo_browser t b 0 0) h,
            next_fn := 2\<rparr>)"

definition top_world :: world where
  "top_world = demo_initialized ''0px'' ''auto'' top_fn"

definition bottom_world :: world where
  "bottom_world = demo_initialized ''auto'' ''0px'' bottom_fn"

text \<open>The demo page's element with an inline \<open>width\<close> of its own.\<close>

definition styled_world :: world where
  "styled_world = demo_world\<lparr>el_style := (\<lambda>_. Txt '''')(''width'' := Txt ''100px'')\<rparr>"

text \<open>The top page with an element whose computed height does not parse to a number.\<close>

definition auto_height_page :: "real \<Rightarrow> browser" where
  "auto_height_page y =
     (top_page y)\<lparr>computedStyle :=
        (\<lambda>w n p. if p = ''height'' then ''auto'' else demo_style ''0px'' ''auto'' p)\<rparr>"

text \<open>
  The same page for the earlier copy, with \<open>top: 0\<close>. The class names of the page are
  made of letters, digits, underscores and hyphens, which stand for themselves in a
  regular expression: the expression made of such a name between two word boundaries
  matches at the first occurrence of the name that has a word boundary at both ends.
\<close>

definition is_word_char :: "char \<Rightarrow> bool" where
  "is_word_char c =
     (c \<in> set ''abcdefghijklmnopqrstuvwxyzABCDEFGHIJKLMNOPQRSTUVWXYZ0123456789_'')"

definition word_boundary :: "string \<Rightarrow> nat \<Rightarrow> bool" where
  "word_boundary s i =
     ((0 < i \<and> is_word_char (s ! (i - 1))) \<noteq> (i < length s \<and> is_word_char (s ! i)))"

definition class_match :: "string \<Rightarrow> string \<Rightarrow> nat option" where
  "class_match c s =
     List.find (\<lambda>i. take (length c) (drop i s) = c \<and> word_boundary s i
                     \<and> word_boundary s (i + length c))
       [0..<Suc (length s)]"

definition demo_ubrowser :: "real \<Rightarrow> ubrowser" where
  "demo_ubrowser y =
     \<lparr>u_computedStyle = (\<lambda>w n. demo_style ''0px'' ''auto''),
      u_boundingRect = (\<lambda>w n. \<lparr>rect_top = 200 - y, rect_bottom = 250 - y, rect_left = 0,
                                rect_width = 300, rect_height = 50\<rparr>),
      u_parentRect = (\<lambda>w n. \<lparr>rect_top = - y, rect_bottom = 1000 - y, rect_left = 0,
                              rect_width = 300, rect_height = 1000\<rparr>),
      u_querySelectorAll = (\<lambda>w sel. Some [Element]),
      u_passiveSupported = True,
      u_pageYOffset = y,
      u_regexTest = (\<lambda>c s. Some (class_match c s \<noteq> None)),
      u_regexRemove = (\<lambda>c s. Some (case class_match c s of
                                       None \<Rightarrow> s
                                     | Some i \<Rightarrow> take i s @ drop (i + length c) s))\<rparr>"

definition demo_uworld :: uworld where
  "demo_uworld =
     \<lparr>u_nodeName = ''DIV'', u_parent = True, u_style = (\<lambda>_. Txt ''''),
      u_className = ''sticky'', u_store = None, u_listeners = [], u_next_fn = 0\<rparr>"

section \<open>Facts about the helpers\<close>

lemma Sticky_eq: "Sticky options = \<lparr>settings = defaults ++ options\<rparr>"
  by (simp add: Sticky_def Object_assign_def)

lemma classList_add_ok:
  "valid_token c \<Longrightarrow> classList_add c w =
     (Return (), w\<lparr>el_classes := (if c \<in> set (el_classes w) then el_classes w else el_classes w @ [c])\<rparr>)"
  by (simp add: classList_add_def valid_token_def)

lemma classList_remove_ok:
  "valid_token c \<Longrightarrow> classList_remove c w = (Return (), w\<lparr>el_classes := removeAll c (el_classes w)\<rparr>)"
  by (simp add: classList_remove_def valid_token_def)

lemma classList_add_Return: "classList_add c w = (Return u, w') \<Longrightarrow> valid_token c"
  by (auto simp: classList_add_def valid_token_def split: if_splits)

lemma reset_el_style:
  "resetStyleProperties set_el_style ps w =
     w\<lparr>el_style := (\<lambda>p. if p \<in> set ps then Txt '''' else el_style w p)\<rparr>"
proof (induction ps arbitrary: w)
  case Nil
  show ?case by (simp add: resetStyleProperties_def)
next
  case (Cons q qs)
  have "resetStyleProperties set_el_style (q # qs) w
          = resetStyleProperties set_el_style qs (set_el_style q (Txt '''') w)"
    by (simp add: resetStyleProperties_def)
  also have "\<dots> = w\<lparr>el_style := (\<lambda>p. if p \<in> set (q # qs) then Txt '''' else el_style w p)\<rparr>"
    by (simp add: Cons.IH set_el_style_def fun_eq_iff)
  finally show ?case .
qed

lemma copy_el_style:
  assumes "\<And>q v w'. bp (set_el_style q v w') = bp w'"
  shows "copyStyleProperties set_el_style bp ps w =
     w\<lparr>el_style := (\<lambda>p. if p \<in> set ps then bp w p else el_style w p)\<rparr>"
proof (induction ps arbitrary: w)
  case Nil
  show ?case by (simp add: copyStyleProperties_def)
next
  case (Cons q qs)
  have "copyStyleProperties set_el_style bp (q # qs) w
          = copyStyleProperties set_el_style bp qs (set_el_style q (bp w q) w)"
    by (simp add: copyStyleProperties_def)
  also have "\<dots> = w\<lparr>el_style := (\<lambda>p. if p \<in> set (q # qs) then bp w p else el_style w p)\<rparr>"
    by (simp add: Cons.IH assms)
       (auto simp add: set_el_style_def fun_eq_iff assms [unfolded set_el_style_def])
  finally show ?case .
qed

lemma copy_ph_style:
  assumes "el_store w = Some d"
  shows "\<exists>sty. copyStyleProperties set_ph_style bp ps w =
           w\<lparr>el_store := Some (d\<lparr>placeholder := (placeholder d)\<lparr>ph_style := sty\<rparr>\<rparr>)\<rparr>
         \<and> (\<forall>p. p \<notin> set ps \<longrightarrow> sty p = ph_style (placeholder d) p)
         \<and> (\<forall>c. bp = (\<lambda>_. c) \<longrightarrow> (\<forall>p \<in> set ps. sty p = c p))"
  using assms
proof (induction ps arbitrary: w d)
  case Nil
  show ?case
    by (rule exI [of _ "ph_style (placeholder d)"]) (simp add: copyStyleProperties_def Nil)
next
  case (Cons q qs)
  let ?d1 = "d\<lparr>placeholder := (placeholder d)\<lparr>ph_style := (ph_style (placeholder d))(q := bp w q)\<rparr>\<rparr>"
  let ?w1 = "set_ph_style q (bp w q) w"
  have s1: "el_store ?w1 = Some ?d1"
    by (simp add: set_ph_style_def Cons.prems)
  from Cons.IH [OF s1] obtain sty where
    a: "copyStyleProperties set_ph_style bp qs ?w1 =
          ?w1\<lparr>el_store := Some (?d1\<lparr>placeholder := (placeholder ?d1)\<lparr>ph_style := sty\<rparr>\<rparr>)\<rparr>"
    and b: "\<forall>p. p \<notin> set qs \<longrightarrow> sty p = ph_style (placeholder ?d1) p"
    and c: "\<forall>c. bp = (\<lambda>_. c) \<longrightarrow> (\<forall>p \<in> set qs. sty p = c p)"
    by blast
  have unf: "copyStyleProperties set_ph_style bp (q # qs) w = copyStyleProperties set_ph_style bp qs ?w1"
    by (simp add: copyStyleProperties_def)
  show ?case
  proof (intro exI [of _ sty] conjI)
    show "copyStyleProperties set_ph_style bp (q # qs) w =
            w\<lparr>el_store := Some (d\<lparr>placeholder := (placeholder d)\<lparr>ph_style := sty\<rparr>\<rparr>)\<rparr>"
      by (simp add: unf a) (simp add: set_ph_style_def)
    show "\<forall>p. p \<notin> set (q # qs) \<longrightarrow> sty p = ph_style (placeholder d) p"
      using b by simp
    show "\<forall>c. bp = (\<lambda>_. c) \<longrightarrow> (\<forall>p \<in> set (q # qs). sty p = c p)"
    proof (intro allI impI ballI)
      fix c p
      assume bp: "bp = (\<lambda>_. c)" and p: "p \<in> set (q # qs)"
      show "sty p = c p"
      proof (cases "p \<in> set qs")
        case True
        with c bp show ?thesis by blast
      next
        case False
        with p have "p = q" by simp
        with b False bp show ?thesis by simp
      qed
    qed
  qed
qed

lemma updatePlaceholderStyle_ok:
  assumes "el_store w = Some d"
  shows "\<exists>sty. updatePlaceholderStyle B w =
           (Return (), w\<lparr>el_store := Some (d\<lparr>placeholder := (placeholder d)\<lparr>ph_style := sty\<rparr>\<rparr>)\<rparr>)
         \<and> sty ''width'' = Px (Num (rect_width (boundingRect B w Element)))
         \<and> sty ''height'' = Px (Num (rect_height (boundingRect B w Element)))
         \<and> sty ''left'' = Px (Num (rect_left (boundingRect B w Element)))
         \<and> sty ''zIndex'' = ph_style (placeholder d) ''zIndex''
         \<and> sty ''visibility'' = ph_style (placeholder d) ''visibility''"
proof -
  let ?bp1 = "\<lambda>w' property. Txt (computedStyle B w' Element property)"
  let ?ps1 = "[''top'', ''bottom'', ''marginTop'', ''marginBottom'', ''marginLeft'', ''marginRight'']"
  let ?c = "convertNumbersToPixels (boundingRect B w Element)"
  let ?ps2 = "[''width'', ''height'', ''left'']"
  from copy_ph_style [OF assms, of ?bp1 ?ps1] obtain sty1 where
    a1: "copyStyleProperties set_ph_style ?bp1 ?ps1 w =
           w\<lparr>el_store := Some (d\<lparr>placeholder := (placeholder d)\<lparr>ph_style := sty1\<rparr>\<rparr>)\<rparr>"
    and b1: "\<forall>p. p \<notin> set ?ps1 \<longrightarrow> sty1 p = ph_style (placeholder d) p"
    by blast
  let ?w1 = "w\<lparr>el_store := Some (d\<lparr>placeholder := (placeholder d)\<lparr>ph_style := sty1\<rparr>\<rparr>)\<rparr>"
  let ?d1 = "d\<lparr>placeholder := (placeholder d)\<lparr>ph_style := sty1\<rparr>\<rparr>"
  have s1: "el_store ?w1 = Some ?d1" by simp
  from copy_ph_style [OF s1, of "\<lambda>w'. ?c" ?ps2] obtain sty2 where
    a2: "copyStyleProperties set_ph_style (\<lambda>w'. ?c) ?ps2 ?w1 =
           ?w1\<lparr>el_store := Some (?d1\<lparr>placeholder := (placeholder ?d1)\<lparr>ph_style := sty2\<rparr>\<rparr>)\<rparr>"
    and b2: "\<forall>p. p \<notin> set ?ps2 \<longrightarrow> sty2 p = ph_style (placeholder ?d1) p"
    and c2: "\<forall>p \<in> set ?ps2. sty2 p = ?c p"
    by blast
  show ?thesis
  proof (intro exI [of _ sty2] conjI)
    show "updatePlaceholderStyle B w =
           (Return (), w\<lparr>el_store := Some (d\<lparr>placeholder := (placeholder d)\<lparr>ph_style := sty2\<rparr>\<rparr>)\<rparr>)"
      by (simp add: updatePlaceholderStyle_def getData_def assms a1 a2 del: fold_simps)
    show "sty2 ''width'' = Px (Num (rect_width (boundingRect B w Element)))"
      using c2 by (simp add: convertNumbersToPixels_def)
    show "sty2 ''height'' = Px (Num (rect_height (boundingRect B w Element)))"
      using c2 by (simp add: convertNumbersToPixels_def)
    show "sty2 ''left'' = Px (Num (rect_left (boundingRect B w Element)))"
      using c2 by (simp add: convertNumbersToPixels_def)
    show "sty2 ''zIndex'' = ph_style (placeholder d) ''zIndex''"
      using b1 b2 by simp
    show "sty2 ''visibility'' = ph_style (placeholder d) ''visibility''"
      using b1 b2 by simp
  qed
qed

lemma updatePlaceholderStyle_None:
  "el_store w = None \<Longrightarrow> updatePlaceholderStyle B w = (Throw TypeError, w)"
  by (simp add: updatePlaceholderStyle_def getData_def)

lemma get_ph_style_set_el [simp]: "get_ph_style (set_el_style q v w) = get_ph_style w"
  by (simp add: get_ph_style_def set_el_style_def fun_eq_iff)

lemma startSticky_ok:
  assumes "el_store w = Some d" and "el_parent w" and "valid_token (activeClass s)"
  shows "\<exists>sty est. startSticky B s w =
           (Return (),
            w\<lparr>el_store := Some (d\<lparr>placeholder := (placeholder d)\<lparr>ph_style := sty, ph_parent := True\<rparr>,
                                    position := el_style w ''position''\<rparr>),
               el_style := est,
               dispatched := dispatched w @ [''stickystart''],
               el_classes := (if activeClass s \<in> set (el_classes w) then el_classes w
                              else el_classes w @ [activeClass s])\<rparr>)
         \<and> est ''position'' = Txt ''fixed''
         \<and> est ''top'' = el_style w ''top'' \<and> est ''bottom'' = el_style w ''bottom''
         \<and> sty ''width'' = Px (Num (rect_width (boundingRect B w Element)))
         \<and> sty ''height'' = Px (Num (rect_height (boundingRect B w Element)))
         \<and> sty ''left'' = Px (Num (rect_left (boundingRect B w Element)))
         \<and> est ''width'' = sty ''width'' \<and> est ''height'' = sty ''height'' \<and> est ''left'' = sty ''left''"
proof -
  from updatePlaceholderStyle_ok [OF assms(1), of B] obtain sty where
    u: "updatePlaceholderStyle B w =
          (Return (), w\<lparr>el_store := Some (d\<lparr>placeholder := (placeholder d)\<lparr>ph_style := sty\<rparr>\<rparr>)\<rparr>)"
    and g: "sty ''width'' = Px (Num (rect_width (boundingRect B w Element)))"
           "sty ''height'' = Px (Num (rect_height (boundingRect B w Element)))"
           "sty ''left'' = Px (Num (rect_left (boundingRect B w Element)))"
    by blast
  let ?est = "\<lambda>p. if p \<in> set properties then sty p
                   else if p \<in> set [''position''] then Txt ''fixed'' else el_style w p"
  show ?thesis
  proof (rule exI [of _ sty], rule exI [of _ ?est], intro conjI)
    show "startSticky B s w =
           (Return (),
            w\<lparr>el_store := Some (d\<lparr>placeholder := (placeholder d)\<lparr>ph_style := sty, ph_parent := True\<rparr>,
                                    position := el_style w ''position''\<rparr>),
               el_style := ?est,
               dispatched := dispatched w @ [''stickystart''],
               el_classes := (if activeClass s \<in> set (el_classes w) then el_classes w
                              else el_classes w @ [activeClass s])\<rparr>)"
      using assms(2,3)
      by (simp add: startSticky_def u copy_el_style Let_def fireEvent_def classList_add_ok
            get_ph_style_def cong: if_cong)
  qed (simp_all add: g properties_def)
qed

lemma cleanUp_ok:
  assumes "el_store w = Some d"
  shows "cleanUp s w =
     (Return (),
      w\<lparr>el_style := (\<lambda>p. if p = ''position'' then position d
                          else if p \<in> set (properties @ [''marginTop'', ''marginBottom'', ''top'', ''bottom''])
                          then Txt '''' else el_style w p),
         el_store := Some (d\<lparr>placeholder := (placeholder d)\<lparr>ph_parent := False\<rparr>\<rparr>)\<rparr>)"
proof (cases "ph_parent (placeholder d)")
  case True
  then show ?thesis
    using assms
    by (simp add: cleanUp_def getData_def reset_el_style set_el_style_def Let_def fun_eq_iff
          properties_def)
next
  case False
  then have "d\<lparr>placeholder := (placeholder d)\<lparr>ph_parent := False\<rparr>\<rparr> = d"
    by simp
  with False show ?thesis
    using assms
    by (simp add: cleanUp_def getData_def reset_el_style set_el_style_def Let_def fun_eq_iff
          properties_def)
qed

lemma cleanUp_None:
  "el_store w = None \<Longrightarrow> fst (cleanUp s w) = Throw TypeError"
  by (simp add: cleanUp_def getData_def Let_def)

lemma endSticky_ok:
  assumes "el_store w = Some d" and "valid_token (activeClass s)"
  shows "endSticky s w =
     (Return (),
      w\<lparr>el_style := (\<lambda>p. if p = ''position'' then position d
                          else if p \<in> set (properties @ [''marginTop'', ''marginBottom'', ''top'', ''bottom''])
                          then Txt '''' else el_style w p),
         el_store := Some (d\<lparr>placeholder := (placeholder d)\<lparr>ph_parent := False\<rparr>\<rparr>),
         dispatched := dispatched w @ [''stickyend''],
         el_classes := removeAll (activeClass s) (el_classes w)\<rparr>)"
  using assms
  by (simp add: endSticky_def cleanUp_ok fireEvent_def classList_remove_ok)

lemma getBoundaries_ok:
  assumes "el_store w = Some d" and "el_parent w"
  shows "\<exists>b. getBoundaries B f w (ph_parent (placeholder d)) = Return b"
  using assms
  by (simp add: getBoundaries_def getData_def calculateBoundaries_def hasParent_def Let_def)

lemma stickToTop_post:
  assumes s: "el_store w = Some d" and p: "el_parent w"
    and v: "valid_token (activeClass (fn_sticky f))"
    and b: "getBoundaries B f w (ph_parent (placeholder d)) = Return b"
  shows "\<exists>w'. stickToTop B f w = (Return (), w') \<and> tick_post f (isInRangeTop B b) w d w'"
proof -
  show ?thesis
  proof (cases "isInRangeTop B b")
    case True
    show ?thesis
    proof (cases "ph_parent (placeholder d)")
      case False
      from startSticky_ok [OF s p v, of B] obtain sty est where
        st: "startSticky B (fn_sticky f) w =
           (Return (),
            w\<lparr>el_store := Some (d\<lparr>placeholder := (placeholder d)\<lparr>ph_style := sty, ph_parent := True\<rparr>,
                                    position := el_style w ''position''\<rparr>),
               el_style := est,
               dispatched := dispatched w @ [''stickystart''],
               el_classes := (if activeClass (fn_sticky f) \<in> set (el_classes w) then el_classes w
                              else el_classes w @ [activeClass (fn_sticky f)])\<rparr>)"
        and e: "est ''position'' = Txt ''fixed''"
        by blast
      show ?thesis
        using True False e b
        by (simp add: stickToTop_def Let_def getData_def s st tick_post_def set_el_style_def)
    next
      case a: True
      show ?thesis
        using True a b
        by (simp add: stickToTop_def Let_def getData_def s tick_post_def set_el_style_def)
    qed
  next
    case False
    show ?thesis
    proof (cases "ph_parent (placeholder d)")
      case a: True
      show ?thesis
        using False a b
        by (simp add: stickToTop_def Let_def getData_def s tick_post_def endSticky_ok [OF s v])
    next
      case a: False
      show ?thesis
        using False a b
        by (simp add: stickToTop_def Let_def getData_def s tick_post_def)
    qed
  qed
qed

lemma stickToTop_ok:
  assumes s: "el_store w = Some d" and p: "el_parent w"
    and v: "valid_token (activeClass (fn_sticky f))" and side: "fn_side f = StickToTop"
  shows "\<exists>w'. stickToTop B f w = (Return (), w') \<and> tick_post f (inRange B f w) w d w'"
proof -
  from getBoundaries_ok [OF s p, of B f] obtain b where
    b: "getBoundaries B f w (ph_parent (placeholder d)) = Return b" by blast
  have r: "inRange B f w = isInRangeTop B b"
    by (simp add: inRange_def isAdded_def getData_def s b side)
  from stickToTop_post [OF s p v b] show ?thesis by (simp add: r)
qed

lemma stickToBottom_post:
  assumes s: "el_store w = Some d" and p: "el_parent w"
    and v: "valid_token (activeClass (fn_sticky f))"
    and b: "getBoundaries B f w (ph_parent (placeholder d)) = Return b"
  shows "\<exists>w'. stickToBottom B f w = (Return (), w') \<and> tick_post f (isInRangeBottom B b) w d w'"
proof -
  show ?thesis
  proof (cases "isInRangeBottom B b")
    case True
    show ?thesis
    proof (cases "ph_parent (placeholder d)")
      case False
      from startSticky_ok [OF s p v, of B] obtain sty est where
        st: "startSticky B (fn_sticky f) w =
           (Return (),
            w\<lparr>el_store := Some (d\<lparr>placeholder := (placeholder d)\<lparr>ph_style := sty, ph_parent := True\<rparr>,
                                    position := el_style w ''position''\<rparr>),
               el_style := est,
               dispatched := dispatched w @ [''stickystart''],
               el_classes := (if activeClass (fn_sticky f) \<in> set (el_classes w) then el_classes w
                              else el_classes w @ [activeClass (fn_sticky f)])\<rparr>)"
        and e: "est ''position'' = Txt ''fixed''"
        by blast
      show ?thesis
        using True False e b
        by (simp add: stickToBottom_def Let_def getData_def s st tick_post_def set_el_style_def)
    next
      case a: True
      show ?thesis
        using True a b
        by (simp add: stickToBottom_def Let_def getData_def s tick_post_def set_el_style_def)
    qed
  next
    case False
    show ?thesis
    proof (cases "ph_parent (placeholder d)")
      case a: True
      show ?thesis
        using False a b
        by (simp add: stickToBottom_def Let_def getData_def s tick_post_def endSticky_ok [OF s v])
    next
      case a: False
      show ?thesis
        using False a b
        by (simp add: stickToBottom_def Let_def getData_def s tick_post_def)
    qed
  qed
qed

lemma stickToBottom_ok:
  assumes s: "el_store w = Some d" and p: "el_parent w"
    and v: "valid_token (activeClass (fn_sticky f))" and side: "fn_side f = StickToBottom"
  shows "\<exists>w'. stickToBottom B f w = (Return (), w') \<and> tick_post f (inRange B f w) w d w'"
proof -
  from getBoundaries_ok [OF s p, of B f] obtain b where
    b: "getBoundaries B f w (ph_parent (placeholder d)) = Return b" by blast
  have r: "inRange B f w = isInRangeBottom B b"
    by (simp add: inRange_def isAdded_def getData_def s b side)
  from stickToBottom_post [OF s p v b] show ?thesis by (simp add: r)
qed

lemma call_scroll_ok:
  assumes "el_store w = Some d" and "el_parent w" and "valid_token (activeClass (fn_sticky f))"
  shows "\<exists>w'. call_scroll B f w = (Return (), w') \<and> tick_post f (inRange B f w) w d w'"
proof (cases "fn_side f")
  case StickToTop
  with stickToTop_ok [OF assms, of B] show ?thesis by (simp add: call_scroll_def)
next
  case StickToBottom
  with stickToBottom_ok [OF assms, of B] show ?thesis by (simp add: call_scroll_def)
qed

lemma call_stored_scroll_ok:
  assumes "el_store w = Some d" and "el_parent w"
    and "valid_token (activeClass (fn_sticky (scroll (handlers d))))"
  shows "\<exists>w'. call_stored_scroll B w = (Return (), w')
           \<and> tick_post (scroll (handlers d)) (stored_inRange B w) w d w'"
  using call_scroll_ok [OF assms, of B] assms(1)
  by (simp add: call_stored_scroll_def stored_inRange_def getData_def)

subsection \<open>Setting up\<close>

lemma getStickyMargins_Return:
  assumes "getStickyMargins B s w = (Return m, w')"
  shows "valid_token (activeClass s) \<and> w' = w\<lparr>el_classes := removeAll (activeClass s) (el_classes w)\<rparr>"
proof -
  have v: "valid_token (activeClass s)"
    using assms
    by (cases "classList_add (activeClass s) w")
       (auto simp: getStickyMargins_def valid_token_def classList_add_def split: if_splits)
  with assms show ?thesis
    by (auto simp: getStickyMargins_def classList_add_ok classList_remove_ok Let_def)
qed

lemma getStickyMargins_ok:
  assumes "valid_token (activeClass s)"
  shows "\<exists>m. getStickyMargins B s w = (Return m, w\<lparr>el_classes := removeAll (activeClass s) (el_classes w)\<rparr>)"
  using assms by (simp add: getStickyMargins_def classList_add_ok classList_remove_ok Let_def)

lemma getComputedZIndex_world: "snd (getComputedZIndex B w) = w"
  by (simp add: getComputedZIndex_def Let_def set_el_style_def)

lemma getZIndex_world: "snd (getZIndex B sel w) = w"
proof -
  obtain z w1 where g: "getComputedZIndex B w = (z, w1)" by (cases "getComputedZIndex B w")
  with getComputedZIndex_world [of B w] have "w1 = w" by simp
  with g show ?thesis
    by (simp add: getZIndex_def split: option.splits)
qed

lemma bind_r_Return:
  assumes "bind_r m f = (Return u, w')"
  obtains a w1 where "m = (Return a, w1)" and "f a w1 = (Return u, w')"
proof (cases m)
  case (Pair r w1)
  with assms show ?thesis
    by (cases r) (auto intro: that)
qed

lemma bindEvents_ok:
  assumes "el_store w = Some d"
    and "list_all (\<lambda>l. fn_ident (l_fn l) \<noteq> fn_id (scroll (handlers d))
                       \<and> fn_ident (l_fn l) \<noteq> rfn_id (resize (handlers d))) (listeners w)"
    and "fn_id (scroll (handlers d)) \<noteq> rfn_id (resize (handlers d))"
  shows "bindEvents B w = (Return (), w\<lparr>listeners := listeners w @ bound_listeners B (handlers d)\<rparr>)"
  using assms
  by (auto simp add: bindEvents_def getData_def addEventListener_def Let_def bound_listeners_def
        isPassiveEventListenerSupported_def scrollOptions_def list_ex_iff list_all_iff)

lemma bindEvents_frame:
  assumes "bindEvents B w = (Return u, w')"
  shows "w' = w\<lparr>listeners := listeners w'\<rparr>"
  using assms
  by (auto simp add: bindEvents_def getData_def addEventListener_def Let_def
        split: option.splits if_splits)

lemma onScroll_Return:
  assumes "onScroll B s w = (Return f, w1)"
  shows "valid_token (activeClass s)
       \<and> w1 = w\<lparr>el_classes := removeAll (activeClass s) (el_classes w), next_fn := Suc (next_fn w)\<rparr>
       \<and> fn_sticky f = s \<and> fn_id f = next_fn w"
proof -
  from assms obtain m w0 where g: "getStickyMargins B s w = (Return m, w0)"
    and r: "(let elementStyle = computedStyle B w0 Element;
           distanceFromSide = (if elementStyle ''top'' \<noteq> ''auto''
                               then parseFloat (elementStyle ''top'')
                               else parseFloat (elementStyle ''bottom''))
       in (Return \<lparr>fn_id = next_fn w0, fn_sticky = s,
                   fn_side = (if elementStyle ''top'' \<noteq> ''auto'' then StickToTop else StickToBottom),
                   fn_margins = m, fn_distance = distanceFromSide\<rparr>,
           w0\<lparr>next_fn := Suc (next_fn w0)\<rparr>)) = (Return f, w1)"
    unfolding onScroll_def by (rule bind_r_Return)
  from getStickyMargins_Return [OF g] have v: "valid_token (activeClass s)"
    and w0: "w0 = w\<lparr>el_classes := removeAll (activeClass s) (el_classes w)\<rparr>" by simp_all
  from r w0 v show ?thesis by (auto simp: Let_def)
qed

lemma init_Return:
  assumes "init B s w = (Return u, w')"
  shows "\<exists>wm d. el_store w = None \<and> valid_token (activeClass s)
     \<and> el_store wm = Some d \<and> \<not> ph_parent (placeholder d)
     \<and> ph_nodeName (placeholder d) = el_nodeName w
     \<and> fn_sticky (scroll (handlers d)) = s \<and> rfn_sticky (resize (handlers d)) = s
     \<and> fn_id (scroll (handlers d)) = next_fn w \<and> rfn_id (resize (handlers d)) = Suc (next_fn w)
     \<and> position d = el_style w ''position''
     \<and> ph_style (placeholder d) ''visibility'' = Txt ''hidden''
     \<and> el_style wm = el_style w \<and> el_parent wm = el_parent w \<and> el_nodeName wm = el_nodeName w
     \<and> el_classes wm = removeAll (activeClass s) (el_classes w)
     \<and> dispatched wm = dispatched w \<and> next_fn wm = Suc (Suc (next_fn w))
     \<and> (fresh_ids w \<longrightarrow> listeners wm = listeners w @ bound_listeners B (handlers d))
     \<and> fst (onScroll B s w) = Return (scroll (handlers d))
     \<and> call_stored_scroll B wm = (Return u, w')"
proof -
  have none: "el_store w = None"
    using assms by (cases "el_store w") (simp_all add: init_def getData_def)
  let ?ph = "\<lparr>ph_nodeName = el_nodeName w, ph_style = (\<lambda>_. Txt ''''), ph_parent = False\<rparr>"
  let ?rest = "\<lambda>scrollFn w1.
                let (resizeFn, w2) = onResize s w1;
                    w3 = setData \<lparr>placeholder = ?ph,
                                  handlers = \<lparr>scroll = scrollFn, resize = resizeFn\<rparr>,
                                  position = el_style w2 ''position''\<rparr> w2
                in bind_r (getZIndex B (selector s) w3) (\<lambda>zIndex w4.
                     let w5 = copyStyleProperties set_ph_style
                                (\<lambda>w' property. if property = ''visibility'' then Txt ''hidden''
                                                else if property = ''zIndex'' then NumV zIndex
                                                else Txt ''undefined'')
                                [''visibility'', ''zIndex''] w4
                     in bind_r (updatePlaceholderStyle B w5) (\<lambda>_ w6.
                          bind_r (bindEvents B w6) (\<lambda>_ w7.
                            call_stored_scroll B w7)))"
  have "bind_r (onScroll B s w) ?rest = (Return u, w')"
    using assms none by (simp add: init_def getData_def)
  then obtain f w1 where os: "onScroll B s w = (Return f, w1)" and r1: "?rest f w1 = (Return u, w')"
    by (rule bind_r_Return)
  from onScroll_Return [OF os] have v: "valid_token (activeClass s)"
    and w1: "w1 = w\<lparr>el_classes := removeAll (activeClass s) (el_classes w), next_fn := Suc (next_fn w)\<rparr>"
    and f: "fn_sticky f = s" "fn_id f = next_fn w" by simp_all
  let ?rf = "\<lparr>rfn_id = Suc (next_fn w), rfn_sticky = s\<rparr>"
  let ?d3 = "\<lparr>placeholder = ?ph, handlers = \<lparr>scroll = f, resize = ?rf\<rparr>,
              position = el_style w ''position''\<rparr>"
  let ?w3 = "w\<lparr>el_classes := removeAll (activeClass s) (el_classes w),
               next_fn := Suc (Suc (next_fn w)), el_store := Some ?d3\<rparr>"
  let ?rest4 = "\<lambda>zIndex w4.
                     let w5 = copyStyleProperties set_ph_style
                                (\<lambda>w' property. if property = ''visibility'' then Txt ''hidden''
                                                else if property = ''zIndex'' then NumV zIndex
                                                else Txt ''undefined'')
                                [''visibility'', ''zIndex''] w4
                     in bind_r (updatePlaceholderStyle B w5) (\<lambda>_ w6.
                          bind_r (bindEvents B w6) (\<lambda>_ w7.
                            call_stored_scroll B w7))"
  have "bind_r (getZIndex B (selector s) ?w3) ?rest4 = (Return u, w')"
    using r1 by (simp add: w1 onResize_def setData_def)
  then obtain z w4 where gz: "getZIndex B (selector s) ?w3 = (Return z, w4)"
    and r4: "?rest4 z w4 = (Return u, w')"
    by (rule bind_r_Return)
  from getZIndex_world [of B "selector s" ?w3] gz have w4: "w4 = ?w3" by simp
  have s3: "el_store ?w3 = Some ?d3" by simp
  let ?c = "\<lambda>property. if property = ''visibility'' then Txt ''hidden''
                                                else if property = ''zIndex'' then NumV z
                                                else Txt ''undefined''"
  from copy_ph_style [OF s3, of "\<lambda>w'. ?c" "[''visibility'', ''zIndex'']"] obtain sty5 where
    c5: "copyStyleProperties set_ph_style (\<lambda>w'. ?c) [''visibility'', ''zIndex''] ?w3 =
           ?w3\<lparr>el_store := Some (?d3\<lparr>placeholder := (placeholder ?d3)\<lparr>ph_style := sty5\<rparr>\<rparr>)\<rparr>"
    and v5: "\<forall>p \<in> set [''visibility'', ''zIndex'']. sty5 p = ?c p"
    by blast
  let ?d5 = "?d3\<lparr>placeholder := (placeholder ?d3)\<lparr>ph_style := sty5\<rparr>\<rparr>"
  let ?w5 = "?w3\<lparr>el_store := Some ?d5\<rparr>"
  have "bind_r (updatePlaceholderStyle B ?w5) (\<lambda>_ w6.
                          bind_r (bindEvents B w6) (\<lambda>_ w7.
                            call_stored_scroll B w7)) = (Return u, w')"
    using r4 unfolding w4 Let_def c5 .
  then obtain u6 w6 where up: "updatePlaceholderStyle B ?w5 = (Return u6, w6)"
    and r6: "bind_r (bindEvents B w6) (\<lambda>_ w7. call_stored_scroll B w7) = (Return u, w')"
    by (rule bind_r_Return)
  have s5: "el_store ?w5 = Some ?d5" by simp
  from updatePlaceholderStyle_ok [OF s5, of B] up obtain sty6 where
    w6: "w6 = ?w5\<lparr>el_store := Some (?d5\<lparr>placeholder := (placeholder ?d5)\<lparr>ph_style := sty6\<rparr>\<rparr>)\<rparr>"
    and v6: "sty6 ''visibility'' = ph_style (placeholder ?d5) ''visibility''"
    by auto
  let ?d6 = "?d5\<lparr>placeholder := (placeholder ?d5)\<lparr>ph_style := sty6\<rparr>\<rparr>"
  from r6 obtain u7 w7 where be: "bindEvents B w6 = (Return u7, w7)"
    and r7: "call_stored_scroll B w7 = (Return u, w')"
    by (rule bind_r_Return)
  have s6: "el_store w6 = Some ?d6" by (simp add: w6)
  from bindEvents_frame [OF be] have w7: "w7 = w6\<lparr>listeners := listeners w7\<rparr>" .
  have fr: "fresh_ids w \<longrightarrow> listeners w7 = listeners w @ bound_listeners B (handlers ?d6)"
  proof
    assume "fresh_ids w"
    then have "list_all (\<lambda>l. fn_ident (l_fn l) \<noteq> fn_id (scroll (handlers ?d6))
                       \<and> fn_ident (l_fn l) \<noteq> rfn_id (resize (handlers ?d6))) (listeners w6)"
      by (auto simp: fresh_ids_def w6 f list_all_iff)
    from bindEvents_ok [OF s6 this, of B] be
    show "listeners w7 = listeners w @ bound_listeners B (handlers ?d6)"
      by (auto simp add: f w6)
  qed
  show ?thesis
  proof (rule exI [of _ w7], rule exI [of _ ?d6], intro conjI)
    show "el_store w7 = Some ?d6" by (subst w7) (simp add: w6)
    show "ph_style (placeholder ?d6) ''visibility'' = Txt ''hidden''"
      using v6 v5 by simp
    show "el_style w7 = el_style w" by (subst w7) (simp add: w6)
    show "el_parent w7 = el_parent w" by (subst w7) (simp add: w6)
    show "el_nodeName w7 = el_nodeName w" by (subst w7) (simp add: w6)
    show "el_classes w7 = removeAll (activeClass s) (el_classes w)" by (subst w7) (simp add: w6)
    show "dispatched w7 = dispatched w" by (subst w7) (simp add: w6)
    show "next_fn w7 = Suc (Suc (next_fn w))" by (subst w7) (simp add: w6)
    show "fresh_ids w \<longrightarrow> listeners w7 = listeners w @ bound_listeners B (handlers ?d6)" by (rule fr)
    show "call_stored_scroll B w7 = (Return u, w')" by (rule r7)
  qed (simp_all add: none v f os)
qed

subsection \<open>The invariant of an initialized element\<close>

lemma call_scroll_Return_parent:
  assumes "el_store w = Some d" and "\<not> ph_parent (placeholder d)"
    and "call_scroll B f w = (Return u, w')"
  shows "el_parent w"
proof (rule ccontr)
  assume "\<not> el_parent w"
  then have "getBoundaries B f w False = Throw TypeError"
    using assms(1) by (simp add: getBoundaries_def getData_def calculateBoundaries_def hasParent_def)
  with assms show False
    by (cases "fn_side f") (simp_all add: call_scroll_def stickToTop_def stickToBottom_def getData_def)
qed

lemma tick_inv:
  assumes "sticky_inv s p0 w"
  shows "\<exists>w'. call_stored_scroll B w = (Return (), w') \<and> sticky_inv s p0 w'
           \<and> isAdded w' = stored_inRange B w
           \<and> dispatched w' = dispatched w @ transition_events (isAdded w) [stored_inRange B w]
           \<and> listeners w' = listeners w \<and> next_fn w' = next_fn w"
proof -
  from assms obtain d where s: "el_store w = Some d" and p: "el_parent w"
    and v: "valid_token (activeClass s)" and fs: "fn_sticky (scroll (handlers d)) = s"
    and rs: "rfn_sticky (resize (handlers d)) = s" and pd: "position d = p0"
    and cl: "ph_parent (placeholder d) = (activeClass s \<in> set (el_classes w))"
    and st: "el_style w ''position'' = (if ph_parent (placeholder d) then Txt ''fixed'' else p0)"
    by (auto simp: sticky_inv_def split: option.splits)
  from v fs have v': "valid_token (activeClass (fn_sticky (scroll (handlers d))))" by simp
  from call_stored_scroll_ok [OF s p v', of B] obtain w' where
    c: "call_stored_scroll B w = (Return (), w')"
    and t: "tick_post (scroll (handlers d)) (stored_inRange B w) w d w'" by blast
  from t obtain d' where s': "el_store w' = Some d'"
    and t1: "ph_parent (placeholder d') = stored_inRange B w" "handlers d' = handlers d"
      "position d' = (if stored_inRange B w \<and> \<not> ph_parent (placeholder d) then el_style w ''position'' else position d)"
      "el_parent w' = el_parent w" "listeners w' = listeners w" "next_fn w' = next_fn w"
      "dispatched w' = dispatched w @ transition_events (ph_parent (placeholder d)) [stored_inRange B w]"
    and t2: "el_classes w' =
            (if stored_inRange B w \<and> \<not> ph_parent (placeholder d)
             then (if activeClass s \<in> set (el_classes w) then el_classes w
                   else el_classes w @ [activeClass s])
             else if \<not> stored_inRange B w \<and> ph_parent (placeholder d)
             then removeAll (activeClass s) (el_classes w)
             else el_classes w)"
    and t3: "el_style w' ''position'' =
            (if stored_inRange B w \<and> \<not> ph_parent (placeholder d) then Txt ''fixed''
             else if \<not> stored_inRange B w \<and> ph_parent (placeholder d) then position d
             else el_style w ''position'')"
    unfolding tick_post_def fs by blast
  have i: "sticky_inv s p0 w'"
    unfolding sticky_inv_def
    using p v fs rs pd cl st s' t1 t2 t3 by (auto split: if_splits)
  show ?thesis
    using c i t1 s s' by (auto simp: isAdded_def getData_def)
qed

lemma init_inv:
  assumes "init B s w = (Return u, w')"
  shows "sticky_inv s (el_style w ''position'') w'"
proof -
  from init_Return [OF assms] obtain wm d where
    v: "valid_token (activeClass s)" and sm: "el_store wm = Some d"
    and na: "\<not> ph_parent (placeholder d)"
    and fs: "fn_sticky (scroll (handlers d)) = s" and rs: "rfn_sticky (resize (handlers d)) = s"
    and pd: "position d = el_style w ''position''"
    and es: "el_style wm = el_style w" and ep: "el_parent wm = el_parent w"
    and ec: "el_classes wm = removeAll (activeClass s) (el_classes w)"
    and c: "call_stored_scroll B wm = (Return u, w')"
    by blast
  from c sm have "call_scroll B (scroll (handlers d)) wm = (Return u, w')"
    by (simp add: call_stored_scroll_def getData_def)
  from call_scroll_Return_parent [OF sm na this] have p: "el_parent wm" .
  have "sticky_inv s (el_style w ''position'') wm"
    unfolding sticky_inv_def using p v sm na fs rs pd es ec by simp
  from tick_inv [OF this, of B] c show ?thesis by simp
qed

lemma destroy_ok:
  assumes "el_store w = Some d"
  shows "destroy B s w =
     (Return (),
      w\<lparr>el_style := (\<lambda>p. if p = ''position'' then position d
                          else if p \<in> set (properties @ [''marginTop'', ''marginBottom'', ''top'', ''bottom''])
                          then Txt '''' else el_style w p),
         el_store := None, listeners := listeners (snd (destroy B s w))\<rparr>)"
  using assms
  by (simp add: destroy_def cleanUp_ok unbindEvents_def getData_def removeEventListener_def
        removeData_def Let_def)

lemma resize_inv:
  assumes "sticky_inv s p0 w" and "call_stored_resize B w = (Return u, w')"
  shows "sticky_inv s p0 w'"
proof -
  from assms(1) obtain d where sd: "el_store w = Some d"
    and rs: "rfn_sticky (resize (handlers d)) = s" and pd: "position d = p0"
    by (auto simp: sticky_inv_def split: option.splits)
  define ls where "ls = listeners (snd (destroy B s w))"
  from destroy_ok [OF sd, of B s] have
    de: "destroy B s w = (Return (),
      w\<lparr>el_style := (\<lambda>p. if p = ''position'' then position d
                          else if p \<in> set (properties @ [''marginTop'', ''marginBottom'', ''top'', ''bottom''])
                          then Txt '''' else el_style w p),
         el_store := None, listeners := ls\<rparr>)" by (simp add: ls_def)
  let ?w1 = "w\<lparr>el_style := (\<lambda>p. if p = ''position'' then position d
                          else if p \<in> set (properties @ [''marginTop'', ''marginBottom'', ''top'', ''bottom''])
                          then Txt '''' else el_style w p),
         el_store := None, listeners := ls\<rparr>"
  from assms(2) have "bind_r (init B s ?w1) (\<lambda>_. call_stored_scroll B) = (Return u, w')"
    by (simp add: call_stored_resize_def getData_def sd call_resize_def rs de)
  then obtain u2 w2 where i: "init B s ?w1 = (Return u2, w2)"
    and c: "call_stored_scroll B w2 = (Return u, w')"
    by (rule bind_r_Return)
  from init_inv [OF i] have "sticky_inv s p0 w2" by (simp add: pd)
  from tick_inv [OF this, of B] c show ?thesis by simp
qed

lemma run_inv:
  assumes "sticky_inv s p0 w" and "run_ticks ts w = (Return u, w')"
  shows "sticky_inv s p0 w'"
  using assms
proof (induction ts arbitrary: w)
  case Nil
  then show ?case by simp
next
  case (Cons t ts)
  show ?case
  proof (cases t)
    case (ScrollTick B)
    from tick_inv [OF Cons.prems(1), of B] obtain w1 where
      c: "call_stored_scroll B w = (Return (), w1)" and i: "sticky_inv s p0 w1" by blast
    from Cons.prems(2) have "run_ticks ts w1 = (Return u, w')"
      by (simp add: ScrollTick c)
    from Cons.IH [OF i this] show ?thesis .
  next
    case (ResizeTick B)
    from Cons.prems(2) have "bind_r (call_stored_resize B w) (\<lambda>_. run_ticks ts) = (Return u, w')"
      by (simp add: ResizeTick)
    then obtain u1 w1 where c: "call_stored_resize B w = (Return u1, w1)"
      and r: "run_ticks ts w1 = (Return u, w')"
      by (rule bind_r_Return)
    from Cons.IH [OF resize_inv [OF Cons.prems(1) c] r] show ?thesis .
  qed
qed

subsection \<open>The branches of the two handlers\<close>

lemma stickToTop_cases:
  assumes "el_store w = Some d" and "getBoundaries B f w (ph_parent (placeholder d)) = Return b"
  shows "stickToTop B f w =
     (if isInRangeTop B b then
        bind_r (if ph_parent (placeholder d) then (Return (), w) else startSticky B (fn_sticky f) w)
          (\<lambda>_ w1. (Return (),
             set_el_style ''top''
               (if js_ge (js_sub (gapTop B w b) (fn_distance f)) (Num 0) then Txt ''''
                else Px (gapTop B w b)) w1))
      else if ph_parent (placeholder d) then endSticky (fn_sticky f) w
      else (Return (), w))"
  using assms by (simp add: stickToTop_def getData_def Let_def)

lemma stickToBottom_cases:
  assumes "el_store w = Some d" and "getBoundaries B f w (ph_parent (placeholder d)) = Return b"
  shows "stickToBottom B f w =
     (if isInRangeBottom B b then
        bind_r (if ph_parent (placeholder d) then (Return (), w) else startSticky B (fn_sticky f) w)
          (\<lambda>_ w1. (Return (),
             set_el_style ''bottom''
               (if js_le (js_add (gapBottom B w b) (fn_distance f)) (Num 0) then Txt ''''
                else Px (js_neg (gapBottom B w b))) w1))
      else if ph_parent (placeholder d) then endSticky (fn_sticky f) w
      else (Return (), w))"
  using assms by (simp add: stickToBottom_def getData_def Let_def)

lemma startSticky_then_set:
  assumes "el_store w = Some d" and "el_parent w" and "valid_token (activeClass s)"
  shows "\<exists>w'. bind_r (startSticky B s w) (\<lambda>_ w1. (Return (), set_el_style p v w1)) = (Return (), w')
            \<and> el_style w' p = v"
proof -
  from startSticky_ok [OF assms, of B] obtain ws where "startSticky B s w = (Return (), ws)"
    by blast
  then show ?thesis by (simp add: set_el_style_def)
qed

lemma not_js_ge_iff: "(\<not> js_ge x (Num 0)) = (js_lt x (Num 0) \<or> x = NaN)"
  by (cases x) (auto simp: js_ge_def)

lemma not_js_le_iff: "(\<not> js_le x (Num 0)) = (js_gt x (Num 0) \<or> x = NaN)"
  by (cases x) (auto simp: js_gt_def)

lemma stickToTop_style:
  assumes s: "el_store w = Some d" and p: "el_parent w"
    and v: "valid_token (activeClass (fn_sticky f))"
    and b: "getBoundaries B f w (ph_parent (placeholder d)) = Return b"
    and r: "isInRangeTop B b"
  shows "\<exists>w'. stickToTop B f w = (Return (), w') \<and>
              el_style w' ''top'' =
                (if js_ge (js_sub (gapTop B w b) (fn_distance f)) (Num 0) then Txt ''''
                 else Px (gapTop B w b))"
proof (cases "ph_parent (placeholder d)")
  case True
  with r show ?thesis
    by (simp add: stickToTop_cases [OF s b] set_el_style_def)
next
  case False
  with r startSticky_then_set [OF s p v, of B] show ?thesis
    by (simp add: stickToTop_cases [OF s b])
qed

lemma stickToBottom_style:
  assumes s: "el_store w = Some d" and p: "el_parent w"
    and v: "valid_token (activeClass (fn_sticky f))"
    and b: "getBoundaries B f w (ph_parent (placeholder d)) = Return b"
    and r: "isInRangeBottom B b"
  shows "\<exists>w'. stickToBottom B f w = (Return (), w') \<and>
              el_style w' ''bottom'' =
                (if js_le (js_add (gapBottom B w b) (fn_distance f)) (Num 0) then Txt ''''
                 else Px (js_neg (gapBottom B w b)))"
proof (cases "ph_parent (placeholder d)")
  case True
  with r show ?thesis
    by (simp add: stickToBottom_cases [OF s b] set_el_style_def)
next
  case False
  with r startSticky_then_set [OF s p v, of B] show ?thesis
    by (simp add: stickToBottom_cases [OF s b])
qed

lemma inv_store:
  assumes "sticky_inv s p0 w"
  obtains d where "el_store w = Some d" and "el_parent w" and "valid_token (activeClass s)"
    and "fn_sticky (scroll (handlers d)) = s" and "rfn_sticky (resize (handlers d)) = s"
    and "position d = p0"
    and "ph_parent (placeholder d) = (activeClass s \<in> set (el_classes w))"
    and "el_style w ''position'' = (if ph_parent (placeholder d) then Txt ''fixed'' else p0)"
  using assms by (auto simp: sticky_inv_def split: option.splits)

lemma inv_class:
  assumes "sticky_inv s p0 w"
  shows "hasActiveClass w = isAdded w"
  using assms by (rule inv_store) (simp add: hasActiveClass_def isAdded_def getData_def)

lemma inv_fixed:
  assumes "sticky_inv s p0 w" and "isAdded w"
  shows "el_style w ''position'' = Txt ''fixed''"
  using assms(1) by (rule inv_store) (use assms(2) in \<open>simp add: isAdded_def getData_def\<close>)

lemma tick_handlers:
  assumes "sticky_inv s p0 w"
  shows "map_option handlers (el_store (snd (call_stored_scroll B w))) = map_option handlers (el_store w)"
proof -
  from assms obtain d where s: "el_store w = Some d" and p: "el_parent w"
    and v: "valid_token (activeClass s)" and fs: "fn_sticky (scroll (handlers d)) = s"
    by (rule inv_store)
  from v fs have v': "valid_token (activeClass (fn_sticky (scroll (handlers d))))" by simp
  from call_stored_scroll_ok [OF s p v', of B] show ?thesis
    by (auto simp: tick_post_def s)
qed

lemma scroll_ticks_inv:
  assumes "sticky_inv s p0 w"
  shows "\<exists>w'. scroll_ticks Bs w = (Return (), w') \<and> sticky_inv s p0 w'
           \<and> dispatched w' = dispatched w @ transition_events (isAdded w) (range_trace Bs w)
           \<and> isAdded w' = last (isAdded w # range_trace Bs w)"
  using assms
proof (induction Bs arbitrary: w)
  case Nil
  then show ?case by simp
next
  case (Cons B Bs)
  from tick_inv [OF Cons.prems, of B] obtain w1 where
    c: "call_stored_scroll B w = (Return (), w1)" and i: "sticky_inv s p0 w1"
    and a: "isAdded w1 = stored_inRange B w"
    and e: "dispatched w1 = dispatched w @ transition_events (isAdded w) [stored_inRange B w]"
    by blast
  from Cons.IH [OF i] obtain w' where
    r: "scroll_ticks Bs w1 = (Return (), w')" and i': "sticky_inv s p0 w'"
    and e': "dispatched w' = dispatched w1 @ transition_events (isAdded w1) (range_trace Bs w1)"
    and a': "isAdded w' = last (isAdded w1 # range_trace Bs w1)"
    by blast
  show ?case
    using c r i' e e' a a' by simp
qed

lemma call_scroll_cases:
  assumes s: "el_store w = Some d" and p: "el_parent w"
  shows "\<exists>prop v. call_scroll B f w =
     (if inRange B f w then
        bind_r (if ph_parent (placeholder d) then (Return (), w) else startSticky B (fn_sticky f) w)
          (\<lambda>_ w1. (Return (), set_el_style prop v w1))
      else if ph_parent (placeholder d) then endSticky (fn_sticky f) w
      else (Return (), w))"
proof -
  from getBoundaries_ok [OF s p, of B f] obtain b where
    b: "getBoundaries B f w (ph_parent (placeholder d)) = Return b" by blast
  show ?thesis
  proof (cases "fn_side f")
    case StickToTop
    then have "inRange B f w = isInRangeTop B b"
      by (simp add: inRange_def isAdded_def getData_def s b)
    with StickToTop stickToTop_cases [OF s b] show ?thesis
      by (simp add: call_scroll_def) blast
  next
    case StickToBottom
    then have "inRange B f w = isInRangeBottom B b"
      by (simp add: inRange_def isAdded_def getData_def s b)
    with StickToBottom stickToBottom_cases [OF s b] show ?thesis
      by (simp add: call_scroll_def) blast
  qed
qed

lemma tick_changes:
  assumes i: "sticky_inv s p0 w" and c: "call_stored_scroll B w = (Return u, w')"
  shows "(isAdded w' \<and> \<not> isAdded w \<longrightarrow>
           (\<exists>ws. startSticky B s w = (Return (), ws) \<and> getData w' = getData ws
              \<and> get_ph_style w' ''width'' = Px (Num (rect_width (boundingRect B w Element)))
              \<and> get_ph_style w' ''height'' = Px (Num (rect_height (boundingRect B w Element)))
              \<and> get_ph_style w' ''left'' = Px (Num (rect_left (boundingRect B w Element)))))
       \<and> (\<not> isAdded w' \<and> isAdded w \<longrightarrow> endSticky s w = (Return (), w'))
       \<and> (isAdded w' = isAdded w \<longrightarrow> getData w' = getData w)"
proof -
  from i obtain d where s: "el_store w = Some d" and p: "el_parent w"
    and v: "valid_token (activeClass s)" and fs: "fn_sticky (scroll (handlers d)) = s"
    by (rule inv_store)
  let ?f = "scroll (handlers d)"
  from tick_inv [OF i, of B] c have a': "isAdded w' = stored_inRange B w" by simp
  have r: "stored_inRange B w = inRange B ?f w"
    by (simp add: stored_inRange_def getData_def s)
  have a: "isAdded w = ph_parent (placeholder d)"
    by (simp add: isAdded_def getData_def s)
  from call_scroll_cases [OF s p, of B ?f] obtain pr vl where
    cs: "call_scroll B ?f w =
     (if inRange B ?f w then
        bind_r (if ph_parent (placeholder d) then (Return (), w) else startSticky B s w)
          (\<lambda>_ w1. (Return (), set_el_style pr vl w1))
      else if ph_parent (placeholder d) then endSticky s w
      else (Return (), w))"
    unfolding fs by blast
  from c have c': "call_scroll B ?f w = (Return u, w')"
    by (simp add: call_stored_scroll_def getData_def s)
  from startSticky_ok [OF s p v, of B] obtain sty est where
    st: "startSticky B s w =
           (Return (),
            w\<lparr>el_store := Some (d\<lparr>placeholder := (placeholder d)\<lparr>ph_style := sty, ph_parent := True\<rparr>,
                                    position := el_style w ''position''\<rparr>),
               el_style := est,
               dispatched := dispatched w @ [''stickystart''],
               el_classes := (if activeClass s \<in> set (el_classes w) then el_classes w
                              else el_classes w @ [activeClass s])\<rparr>)"
    and g: "sty ''width'' = Px (Num (rect_width (boundingRect B w Element)))"
           "sty ''height'' = Px (Num (rect_height (boundingRect B w Element)))"
           "sty ''left'' = Px (Num (rect_left (boundingRect B w Element)))"
    by blast
  show ?thesis
  proof (intro conjI impI)
    assume "isAdded w' \<and> \<not> isAdded w"
    with a' r a cs c' have "bind_r (startSticky B s w) (\<lambda>_ w1. (Return (), set_el_style pr vl w1)) = (Return u, w')"
      by simp
    then show "\<exists>ws. startSticky B s w = (Return (), ws) \<and> getData w' = getData ws
              \<and> get_ph_style w' ''width'' = Px (Num (rect_width (boundingRect B w Element)))
              \<and> get_ph_style w' ''height'' = Px (Num (rect_height (boundingRect B w Element)))
              \<and> get_ph_style w' ''left'' = Px (Num (rect_left (boundingRect B w Element)))"
      using g by (auto simp add: st set_el_style_def getData_def get_ph_style_def)
  next
    assume "\<not> isAdded w' \<and> isAdded w"
    with a' r a cs c' show "endSticky s w = (Return (), w')" by simp
  next
    assume "isAdded w' = isAdded w"
    with a' r a cs c' show "getData w' = getData w"
      by (auto simp add: set_el_style_def getData_def split: if_splits)
  qed
qed

lemma getZIndex_ok:
  assumes "\<And>w'. querySelectorAll B w' sel \<noteq> None"
  shows "\<exists>z. getZIndex B sel w = (Return z, w)"
proof -
  obtain z w1 where g: "getComputedZIndex B w = (z, w1)" by (cases "getComputedZIndex B w")
  with getComputedZIndex_world [of B w] have w1: "w1 = w" by simp
  from assms [of w] obtain ns where "querySelectorAll B w sel = Some ns" by blast
  with g w1 show ?thesis
    by (cases z) (simp_all add: getZIndex_def)
qed

lemma onScroll_ok:
  assumes "valid_token (activeClass s)"
  shows "\<exists>f. onScroll B s w = (Return f,
           w\<lparr>el_classes := removeAll (activeClass s) (el_classes w), next_fn := Suc (next_fn w)\<rparr>)"
proof -
  from getStickyMargins_ok [OF assms, of B w] obtain m where
    "getStickyMargins B s w = (Return m, w\<lparr>el_classes := removeAll (activeClass s) (el_classes w)\<rparr>)"
    by blast
  then show ?thesis by (simp add: onScroll_def Let_def)
qed

lemma bindEvents_Some:
  assumes "el_store w = Some d"
  shows "bindEvents B w = (Return (), w\<lparr>listeners := listeners (snd (bindEvents B w))\<rparr>)"
  using assms
  by (simp add: bindEvents_def getData_def Let_def addEventListener_def)

lemma init_ok:
  assumes none: "el_store w = None" and v: "valid_token (activeClass s)" and p: "el_parent w"
    and q: "\<And>w'. querySelectorAll B w' (selector s) \<noteq> None"
  shows "\<exists>w'. init B s w = (Return (), w')"
proof -
  from onScroll_ok [OF v, of B w] obtain f where
    os: "onScroll B s w = (Return f,
           w\<lparr>el_classes := removeAll (activeClass s) (el_classes w), next_fn := Suc (next_fn w)\<rparr>)"
    by blast
  let ?ph = "\<lparr>ph_nodeName = el_nodeName w, ph_style = (\<lambda>_. Txt ''''), ph_parent = False\<rparr>"
  let ?rf = "\<lparr>rfn_id = Suc (next_fn w), rfn_sticky = s\<rparr>"
  let ?d3 = "\<lparr>placeholder = ?ph, handlers = \<lparr>scroll = f, resize = ?rf\<rparr>,
              position = el_style w ''position''\<rparr>"
  let ?w3 = "w\<lparr>el_classes := removeAll (activeClass s) (el_classes w),
               next_fn := Suc (Suc (next_fn w)), el_store := Some ?d3\<rparr>"
  from getZIndex_ok [OF q, of ?w3] obtain z where gz: "getZIndex B (selector s) ?w3 = (Return z, ?w3)"
    by blast
  let ?c = "\<lambda>property. if property = ''visibility'' then Txt ''hidden''
                                                else if property = ''zIndex'' then NumV z
                                                else Txt ''undefined''"
  have s3: "el_store ?w3 = Some ?d3" by simp
  from copy_ph_style [OF s3, of "\<lambda>w'. ?c" "[''visibility'', ''zIndex'']"] obtain sty5 where
    c5: "copyStyleProperties set_ph_style (\<lambda>w'. ?c) [''visibility'', ''zIndex''] ?w3 =
           ?w3\<lparr>el_store := Some (?d3\<lparr>placeholder := (placeholder ?d3)\<lparr>ph_style := sty5\<rparr>\<rparr>)\<rparr>"
    by blast
  let ?d5 = "?d3\<lparr>placeholder := (placeholder ?d3)\<lparr>ph_style := sty5\<rparr>\<rparr>"
  let ?w5 = "?w3\<lparr>el_store := Some ?d5\<rparr>"
  have s5: "el_store ?w5 = Some ?d5" by simp
  from updatePlaceholderStyle_ok [OF s5, of B] obtain sty6 where
    up: "updatePlaceholderStyle B ?w5 =
          (Return (), ?w5\<lparr>el_store := Some (?d5\<lparr>placeholder := (placeholder ?d5)\<lparr>ph_style := sty6\<rparr>\<rparr>)\<rparr>)"
    by blast
  let ?d6 = "?d5\<lparr>placeholder := (placeholder ?d5)\<lparr>ph_style := sty6\<rparr>\<rparr>"
  let ?w6 = "?w5\<lparr>el_store := Some ?d6\<rparr>"
  have s6: "el_store ?w6 = Some ?d6" by simp
  define ls where "ls = listeners (snd (bindEvents B ?w6))"
  from bindEvents_Some [OF s6, of B] have be: "bindEvents B ?w6 = (Return (), ?w6\<lparr>listeners := ls\<rparr>)"
    by (simp only: ls_def)
  let ?w7 = "?w6\<lparr>listeners := ls\<rparr>"
  have s7: "el_store ?w7 = Some ?d6" by simp
  have p7: "el_parent ?w7" using p by simp
  from onScroll_Return [OF os] have fs: "fn_sticky f = s" by simp
  have v7: "valid_token (activeClass (fn_sticky (scroll (handlers ?d6))))" using v fs by simp
  from call_stored_scroll_ok [OF s7 p7 v7, of B] obtain w' where
    c: "call_stored_scroll B ?w7 = (Return (), w')" by blast
  have "init B s w = (Return (), w')"
    unfolding init_def
    using up be c
    by (simp add: getData_def none os onResize_def setData_def gz Let_def c5)
  then show ?thesis by blast
qed

lemma resize_ok:
  assumes i: "sticky_inv s p0 w" and q: "\<And>w'. querySelectorAll B w' (selector s) \<noteq> None"
  shows "\<exists>wd wi w'. destroy B s w = (Return (), wd) \<and> init B s wd = (Return (), wi)
           \<and> call_stored_scroll B wi = (Return (), w')
           \<and> call_stored_resize B w = (Return (), w')"
proof -
  from i obtain d where sd: "el_store w = Some d" and p: "el_parent w"
    and v: "valid_token (activeClass s)"
    and rs: "rfn_sticky (resize (handlers d)) = s" and pd: "position d = p0"
    by (rule inv_store)
  from destroy_ok [OF sd, of B s] obtain ls where
    de0: "destroy B s w = (Return (),
      w\<lparr>el_style := (\<lambda>p. if p = ''position'' then position d
                          else if p \<in> set (properties @ [''marginTop'', ''marginBottom'', ''top'', ''bottom''])
                          then Txt [] else el_style w p),
         el_store := None, listeners := ls\<rparr>)" by blast
  define wd where "wd = w\<lparr>el_style := (\<lambda>p. if p = ''position'' then position d
                          else if p \<in> set (properties @ [''marginTop'', ''marginBottom'', ''top'', ''bottom''])
                          then Txt [] else el_style w p),
         el_store := None, listeners := ls\<rparr>"
  from de0 have de: "destroy B s w = (Return (), wd)" by (simp only: wd_def)
  have wd: "el_store wd = None" "el_parent wd = el_parent w" "el_style wd ''position'' = p0"
    by (simp_all add: wd_def pd)
  from init_ok [OF wd(1) v _ q] wd(2) p obtain wi where ii: "init B s wd = (Return (), wi)"
    by auto
  from init_inv [OF ii] have "sticky_inv s p0 wi" by (simp add: wd)
  from tick_inv [OF this, of B] obtain w' where c: "call_stored_scroll B wi = (Return (), w')"
    by blast
  have "call_stored_resize B w = (Return (), w')"
    by (simp add: call_stored_resize_def getData_def sd call_resize_def rs de ii c)
  with de ii c show ?thesis by blast
qed

lemma classList_add_member:
  assumes "classList_add c w = (Return u, w')"
  shows "c \<in> set (el_classes w')"
  using assms by (auto simp: classList_add_def split: if_splits)

lemma classList_remove_member:
  assumes "classList_remove c w = (Return u, w')"
  shows "c \<notin> set (el_classes w')"
  using assms by (auto simp: classList_remove_def split: if_splits)

lemma startSticky_class:
  assumes "startSticky B s w = (Return u, w')"
  shows "activeClass s \<in> set (el_classes w')"
proof -
  from assms obtain u1 w1 where
    r: "(let w2 = w1\<lparr>el_store := map_option (\<lambda>d. d\<lparr>position := el_style w1 ''position''\<rparr>) (el_store w1)\<rparr>;
           w3 = copyStyleProperties set_el_style (\<lambda>w' property. Txt ''fixed'') [''position''] w2;
           w4 = copyStyleProperties set_el_style get_ph_style properties w3
       in if \<not> el_parent w4 then (Throw TypeError, w4)
          else
            let w5 = w4\<lparr>el_store := map_option
                          (\<lambda>d. d\<lparr>placeholder := (placeholder d)\<lparr>ph_parent := True\<rparr>\<rparr>) (el_store w4)\<rparr>;
                w6 = fireEvent ''stickystart'' w5
            in classList_add (activeClass s) w6) = (Return u, w')"
    unfolding startSticky_def by (rule bind_r_Return)
  then obtain w6 where "classList_add (activeClass s) w6 = (Return u, w')"
    by (auto simp: Let_def split: if_splits)
  then show ?thesis by (rule classList_add_member)
qed

lemma endSticky_class:
  assumes "endSticky s w = (Return u, w')"
  shows "activeClass s \<notin> set (el_classes w')"
proof -
  from assms obtain u1 w1 where
    "classList_remove (activeClass s) (fireEvent ''stickyend'' w1) = (Return u, w')"
    unfolding endSticky_def by (rule bind_r_Return)
  then show ?thesis by (rule classList_remove_member)
qed

section \<open>Evaluating the library on the demo page\<close>

lemmas parse_defs = parseFloat_def str_decimal_def parse_sign_def is_space_def is_digit_def
  digits_val_def digit_val_def parse_exponent_def

lemma parseFloat_0px [simp]: "parseFloat ''0px'' = Num 0"
  by (simp add: parse_defs)

lemma parseFloat_50px [simp]: "parseFloat ''50px'' = Num 50"
  by (simp add: parse_defs)

lemma parseFloat_auto [simp]: "parseFloat ''auto'' = NaN"
  by (simp add: parse_defs)

lemma Number_of_auto [simp]: "Number_of ''auto'' = NaN"
  by (simp add: Number_of_def parse_defs)

lemmas lib_defs = init_def getData_def onScroll_def getStickyMargins_def
  Sticky_eq defaults_def activeClass_def selector_def classList_add_def classList_remove_def
  onResize_def setData_def getZIndex_def getComputedZIndex_def set_el_style_def
  copyStyleProperties_def set_ph_style_def updatePlaceholderStyle_def convertNumbersToPixels_def
  bindEvents_def addEventListener_def isPassiveEventListenerSupported_def scrollOptions_def
  call_stored_scroll_def call_scroll_def stickToTop_def stickToBottom_def getBoundaries_def
  calculateBoundaries_def hasParent_def gapTop_def gapBottom_def isInRangeTop_def isInRangeBottom_def
  windowBottom_def elementHeight_def startSticky_def endSticky_def cleanUp_def fireEvent_def
  resetStyleProperties_def properties_def get_ph_style_def js_sub_def js_ge_def or0_def
  destroy_def unbindEvents_def removeEventListener_def removeData_def

lemmas demo_defs = demo_browser_def demo_style_def demo_world_def demo_margins_def

lemmas page_defs = top_page_def bottom_page_def demo_defs
  top_world_def bottom_world_def top_fn_def bottom_fn_def
  demo_initialized_def demo_placeholder_def bound_listeners_def

lemma top_world_init: "init (top_page 0) (Sticky Map.empty) demo_world = (Return (), top_world)"
  by (simp add: page_defs lib_defs Let_def is_space_def fun_eq_iff)

lemma bottom_world_init: "init (bottom_page 0) (Sticky Map.empty) demo_world = (Return (), bottom_world)"
  by (simp add: page_defs lib_defs Let_def is_space_def fun_eq_iff)

lemma demo_valid_token: "valid_token (activeClass (Sticky Map.empty))"
  by (simp add: valid_token_def activeClass_def Sticky_eq defaults_def is_space_def)

lemma top_world_facts:
  "getData top_world \<noteq> None" "el_parent top_world" "isAdded top_world = False"
  by (simp_all add: page_defs getData_def isAdded_def)

lemma bottom_world_facts:
  "getData bottom_world \<noteq> None" "el_parent bottom_world" "isAdded bottom_world = False"
  by (simp_all add: page_defs getData_def isAdded_def)

lemma demo_getBoundaries:
  assumes "el_store w = Some d" and "el_parent w" and "\<not> ph_parent (placeholder d)"
    and "fn_margins f = demo_margins"
  shows "getBoundaries (demo_browser t b off y) f w False =
    Return (if t \<noteq> ''auto''
            then \<lparr>b_start = js_add (js_sub (Num (off + 200 - y)) (parseFloat t)) (Num y),
                  b_end = Num (off + 1000)\<rparr>
            else \<lparr>b_start = js_add (js_add (Num (off + 250 - y)) (parseFloat b)) (Num y),
                  b_end = Num off\<rparr>)"
  using assms
  by (simp add: getBoundaries_def getData_def calculateBoundaries_def hasParent_def demo_defs
        Let_def js_sub_def or0_def)

lemma top_world_store: "\<exists>d. el_store top_world = Some d \<and> \<not> ph_parent (placeholder d)
     \<and> scroll (handlers d) = top_fn"
  by (simp add: page_defs)

lemma bottom_world_store: "\<exists>d. el_store bottom_world = Some d \<and> \<not> ph_parent (placeholder d)
     \<and> scroll (handlers d) = bottom_fn"
  by (simp add: page_defs)

lemma demo_fn_facts:
  "fn_margins top_fn = demo_margins" "fn_margins bottom_fn = demo_margins"
  "valid_token (activeClass (fn_sticky top_fn))" "valid_token (activeClass (fn_sticky bottom_fn))"
  "fn_side top_fn = StickToTop" "fn_side bottom_fn = StickToBottom"
  "fn_distance top_fn = Num 0" "fn_distance bottom_fn = Num 0"
  using demo_valid_token by (simp_all add: top_fn_def bottom_fn_def)

lemma demo_height [simp]: "elementHeight (demo_browser t b off y) w = Num 50"
  by (simp add: elementHeight_def demo_defs or0_def)

lemma top_range:
  assumes "el_store w = Some d" and "scroll (handlers d) = top_fn" and "el_parent w"
  shows "stored_inRange (top_page y) w = (200 \<le> y \<and> y \<le> 1000)"
  using assms
  by (simp add: stored_inRange_def inRange_def getData_def getBoundaries_def isAdded_def
      calculateBoundaries_def hasParent_def top_page_def demo_defs demo_fn_facts Let_def
      isInRangeTop_def js_sub_def js_ge_def or0_def)

lemma top_trace:
  assumes "sticky_inv s p0 w" and "map_option handlers (el_store w) = map_option handlers (el_store top_world)"
  shows "range_trace (map top_page ys) w = map (\<lambda>y. 200 \<le> y \<and> y \<le> 1000) ys"
  using assms
proof (induction ys arbitrary: w)
  case Nil
  then show ?case by simp
next
  case (Cons y ys)
  from Cons.prems(1) obtain d where d: "el_store w = Some d" and p: "el_parent w"
    by (rule inv_store)
  from top_world_store Cons.prems(2) d have f: "scroll (handlers d) = top_fn" by auto
  from tick_inv [OF Cons.prems(1), of "top_page y"] obtain w1 where
    c: "call_stored_scroll (top_page y) w = (Return (), w1)" and i: "sticky_inv s p0 w1" by blast
  from tick_handlers [OF Cons.prems(1), of "top_page y"] c Cons.prems(2)
  have h: "map_option handlers (el_store w1) = map_option handlers (el_store top_world)" by simp
  from Cons.IH [OF i h] top_range [OF d f p, of y] c show ?case by simp
qed

lemma top_range_gen:
  assumes "el_store w = Some d" and "fn_side (scroll (handlers d)) = StickToTop"
    and "fn_margins (scroll (handlers d)) = demo_margins" and "el_parent w"
  shows "stored_inRange (top_page y) w = (200 \<le> y \<and> y \<le> 1000)"
  using assms
  by (simp add: stored_inRange_def inRange_def getData_def getBoundaries_def isAdded_def
      calculateBoundaries_def hasParent_def top_page_def demo_defs Let_def
      isInRangeTop_def js_sub_def js_ge_def or0_def)

lemma top_page_onScroll:
  assumes "onScroll (top_page y) s w = (Return f, w1)"
  shows "fn_side f = StickToTop \<and> fn_margins f = demo_margins"
proof -
  from assms obtain m w0 where g: "getStickyMargins (top_page y) s w = (Return m, w0)"
    and r: "(let elementStyle = computedStyle (top_page y) w0 Element;
           distanceFromSide = (if elementStyle ''top'' \<noteq> ''auto''
                               then parseFloat (elementStyle ''top'')
                               else parseFloat (elementStyle ''bottom''))
       in (Return \<lparr>fn_id = next_fn w0, fn_sticky = s,
                   fn_side = (if elementStyle ''top'' \<noteq> ''auto'' then StickToTop else StickToBottom),
                   fn_margins = m, fn_distance = distanceFromSide\<rparr>,
           w0\<lparr>next_fn := Suc (next_fn w0)\<rparr>)) = (Return f, w1)"
    unfolding onScroll_def by (rule bind_r_Return)
  from g have "m = demo_margins"
    by (auto simp: getStickyMargins_def Let_def top_page_def demo_defs classList_add_def
        classList_remove_def split: if_splits)
  with r show ?thesis
    by (auto simp: Let_def top_page_def demo_defs)
qed

lemma top_page_init:
  assumes "init (top_page y) s w = (Return u, w')"
  shows "\<exists>d. el_store w' = Some d \<and> fn_side (scroll (handlers d)) = StickToTop
            \<and> fn_margins (scroll (handlers d)) = demo_margins
            \<and> isAdded w' = (200 \<le> y \<and> y \<le> 1000)"
proof -
  from init_Return [OF assms] obtain wm d where
    v: "valid_token (activeClass s)" and sm: "el_store wm = Some d"
    and na: "\<not> ph_parent (placeholder d)"
    and fs: "fn_sticky (scroll (handlers d)) = s" and rs: "rfn_sticky (resize (handlers d)) = s"
    and pd: "position d = el_style w ''position''"
    and es: "el_style wm = el_style w" and ep: "el_parent wm = el_parent w"
    and ec: "el_classes wm = removeAll (activeClass s) (el_classes w)"
    and os: "fst (onScroll (top_page y) s w) = Return (scroll (handlers d))"
    and c: "call_stored_scroll (top_page y) wm = (Return u, w')"
    by blast
  from os have "onScroll (top_page y) s w = (Return (scroll (handlers d)), snd (onScroll (top_page y) s w))"
    by (simp add: prod_eq_iff)
  from top_page_onScroll [OF this] have f: "fn_side (scroll (handlers d)) = StickToTop"
    "fn_margins (scroll (handlers d)) = demo_margins" by simp_all
  from c sm have "call_scroll (top_page y) (scroll (handlers d)) wm = (Return u, w')"
    by (simp add: call_stored_scroll_def getData_def)
  from call_scroll_Return_parent [OF sm na this] have p: "el_parent wm" .
  have i: "sticky_inv s (el_style w ''position'') wm"
    unfolding sticky_inv_def using p v sm na fs rs pd es ec by simp
  from tick_inv [OF i, of "top_page y"] c
  have a: "isAdded w' = stored_inRange (top_page y) wm" by simp
  from tick_handlers [OF i, of "top_page y"] c sm
  obtain d' where d': "el_store w' = Some d'" "handlers d' = handlers d" by auto
  from a top_range_gen [OF sm f p, of y] d' f show ?thesis by simp
qed

lemma top_page_resize:
  assumes i: "sticky_inv s p0 w"
  shows "\<exists>w' d'. call_stored_resize (top_page y) w = (Return (), w')
            \<and> isAdded w' = (200 \<le> y \<and> y \<le> 1000)
            \<and> el_store w' = Some d' \<and> fn_side (scroll (handlers d')) = StickToTop
            \<and> fn_margins (scroll (handlers d')) = demo_margins"
proof -
  have q: "\<And>w'. querySelectorAll (top_page y) w' (selector s) \<noteq> None"
    by (simp add: top_page_def demo_defs)
  from resize_ok [OF i q] obtain wd wi w' where
    de: "destroy (top_page y) s w = (Return (), wd)" and ii: "init (top_page y) s wd = (Return (), wi)"
    and c: "call_stored_scroll (top_page y) wi = (Return (), w')"
    and r: "call_stored_resize (top_page y) w = (Return (), w')" by blast
  from top_page_init [OF ii] obtain d where d: "el_store wi = Some d"
    "fn_side (scroll (handlers d)) = StickToTop" "fn_margins (scroll (handlers d)) = demo_margins"
    by blast
  from init_inv [OF ii] have iw: "sticky_inv s (el_style wd ''position'') wi" .
  then have p: "el_parent wi" by (rule inv_store)
  from tick_inv [OF iw, of "top_page y"] c
  have a: "isAdded w' = stored_inRange (top_page y) wi" by simp
  from tick_handlers [OF iw, of "top_page y"] c d(1)
  obtain d' where d': "el_store w' = Some d'" "handlers d' = handlers d" by auto
  from a top_range_gen [OF d p, of y] r d' d(2,3) show ?thesis by simp
qed

subsection \<open>The earlier copy on the demo page\<close>

lemma class_match_absent: "class_match ''sticky--active'' ''sticky'' = None"
  by (simp add: class_match_def word_boundary_def is_word_char_def upt_rec)

lemma class_match_present: "class_match ''sticky--active'' ''sticky sticky--active'' = Some 7"
  by (simp add: class_match_def word_boundary_def is_word_char_def upt_rec)

lemma demo_getStickyMargins:
  assumes "u_className w = ''sticky''"
  shows "getStickyMargins_umd (demo_ubrowser y) (Sticky_umd Map.empty) w = (Return demo_margins, w)"
proof -
  have "w\<lparr>u_className := ''sticky''\<rparr> = w"
    using assms by (cases w) simp
  then show ?thesis
    using assms
    by (simp add: getStickyMargins_umd_def addClass_def removeClass_def trim_def Sticky_umd_def
          mergeSettings_def defaults_def activeClass_def demo_ubrowser_def
          class_match_absent class_match_present demo_style_def demo_margins_def is_space_def)
qed

lemma demo_uworld_init:
  "init_umd (demo_ubrowser y) (Sticky_umd Map.empty) demo_uworld =
     (Return (),
      demo_uworld
        \<lparr>u_store := Some \<lparr>u_placeholder = Some (demo_placeholder ''0px'' ''auto''),
                           u_handlers = Some \<lparr>scroll = top_fn\<lparr>fn_sticky := Sticky_umd Map.empty\<rparr>,
                                               resize = \<lparr>rfn_id = 1, rfn_sticky = Sticky_umd Map.empty\<rparr>\<rparr>,
                           u_position = None\<rparr>,
         u_listeners :=
           [\<lparr>l_type = ''load'', l_fn = ScrollFn (top_fn\<lparr>fn_sticky := Sticky_umd Map.empty\<rparr>),
              l_capture = False, l_passive = False\<rparr>,
            \<lparr>l_type = ''scroll'', l_fn = ScrollFn (top_fn\<lparr>fn_sticky := Sticky_umd Map.empty\<rparr>),
              l_capture = False, l_passive = False\<rparr>,
            \<lparr>l_type = ''resize'', l_fn = ResizeFn \<lparr>rfn_id = 1, rfn_sticky = Sticky_umd Map.empty\<rparr>,
              l_capture = False, l_passive = False\<rparr>],
         u_next_fn := 2\<rparr>)"
proof -
  have c: "u_className (setData_umd a demo_uworld) = ''sticky''" for a
    by (simp add: setData_umd_def demo_uworld_def)
  have m: "getStickyMargins_umd (demo_ubrowser y) (Sticky_umd Map.empty) (setData_umd a demo_uworld)
      = (Return demo_margins, setData_umd a demo_uworld)" for a
    using demo_getStickyMargins [OF c] .
  have o: "onScroll_umd (demo_ubrowser y) (Sticky_umd Map.empty) (setData_umd a demo_uworld)
      = (Return (top_fn\<lparr>fn_sticky := Sticky_umd Map.empty\<rparr>),
         (setData_umd a demo_uworld)\<lparr>u_next_fn := 1\<rparr>)" for a
    unfolding onScroll_umd_def m
    by (simp add: calculateBoundaries_umd_def hasParent_umd_def to_int32_def Let_def
          demo_margins_def demo_ubrowser_def demo_uworld_def setData_umd_def demo_style_def
          top_fn_def js_sub_def)
  show ?thesis
    unfolding init_umd_def Let_def o
    by (simp add: getData_umd_def getData_property_def setData_umd_def onResize_umd_def
          getZIndex_umd_def copyStyleProperties_umd_def set_uph_style_def
          updatePlaceholderStyle_umd_def bindEvents_umd_def addEventListener_umd_def
          convertNumbersToPixels_def selector_def Sticky_umd_def mergeSettings_def defaults_def
          demo_ubrowser_def demo_uworld_def demo_style_def top_fn_def demo_placeholder_def
          fun_eq_iff)
qed

section \<open>The boundaries\<close>

text \<open>
  Claim C1, for the current module. For an element whose computed \<open>top\<close> is not
  \<open>auto\<close>, \<open>calculateBoundaries\<close> returns as start the top of the element's bounding
  rectangle minus the parsed \<open>top\<close>, and as end the bottom of the parent's bounding
  rectangle minus the sticky \<open>marginBottom\<close>, which counts as zero when it parses to
  NaN and as the parsed number otherwise, with \<open>window.pageYOffset\<close> added to both.
  That is the one value it returns; for an element that has no parent node the read of
  the parent's rectangle is a TypeError.
\<close>

theorem calculateBoundaries_top:
  assumes "computedStyle B w element ''top'' \<noteq> ''auto''"
  shows "calculateBoundaries B w element stickyMargins =
     (if hasParent w element
      then Return \<lparr>b_start = js_add (js_sub (Num (rect_top (boundingRect B w element)))
                                       (parseFloat (computedStyle B w element ''top'')))
                                (Num (pageYOffset B)),
                   b_end = js_add (js_sub (Num (rect_bottom (parentRect B w element)))
                                     (if parseFloat (marginBottom stickyMargins) = NaN then Num 0
                                      else parseFloat (marginBottom stickyMargins)))
                              (Num (pageYOffset B))\<rparr>
      else Throw TypeError)"
  using assms by (simp add: calculateBoundaries_def Let_def or0_def)

text \<open>
  On the demo page scrolled to 150: a margin of \<open>auto\<close>, which does not parse, counts as
  zero, and a margin of 10.5 pixels counts in full.
\<close>

theorem calculateBoundaries_top_witness:
  "computedStyle (top_page 150) demo_world Element ''top'' \<noteq> ''auto''
   \<and> parseFloat ''auto'' = NaN
   \<and> calculateBoundaries (top_page 150) demo_world Element
         \<lparr>marginBottom = ''auto'', marginTop = ''0px''\<rparr>
       = Return \<lparr>b_start = Num 200, b_end = Num 1000\<rparr>
   \<and> parseFloat ''10.5px'' = Num (21 / 2)
   \<and> calculateBoundaries (top_page 150) demo_world Element
         \<lparr>marginBottom = ''10.5px'', marginTop = ''0px''\<rparr>
       = Return \<lparr>b_start = Num 200, b_end = Num (1979 / 2)\<rparr>"
proof -
  have h: "computedStyle (top_page 150) demo_world Element ''top'' \<noteq> ''auto''"
    by (simp add: top_page_def demo_browser_def demo_style_def)
  have p: "parseFloat ''10.5px'' = Num (21 / 2)"
    by (simp add: parse_defs)
  show ?thesis
    using h p
      calculateBoundaries_top [OF h, of "\<lparr>marginBottom = ''auto'', marginTop = ''0px''\<rparr>"]
      calculateBoundaries_top [OF h, of "\<lparr>marginBottom = ''10.5px'', marginTop = ''0px''\<rparr>"]
    by (simp add: top_page_def demo_browser_def demo_style_def demo_world_def hasParent_def
          js_sub_def)
qed

text \<open>
  The claim covers the earlier copy too, and there it fails: \<open>calculateBoundaries\<close> of
  the earlier copy converts the margin with \<open>~~\<close>, which drops the fraction. With a
  sticky \<open>marginBottom\<close> of 10.5 pixels in a parent whose bottom is at 1000, the end is
  990 and not 989.5.
\<close>

theorem calculateBoundaries_top_counterexample:
  "u_computedStyle (demo_ubrowser 0) demo_uworld Element ''top'' \<noteq> ''auto''
   \<and> rect_bottom (u_parentRect (demo_ubrowser 0) demo_uworld Element) = 1000
   \<and> u_pageYOffset (demo_ubrowser 0) = 0
   \<and> parseFloat ''10.5px'' = Num (21 / 2)
   \<and> js_add (js_sub (Num 1000) (Num (21 / 2))) (Num 0) = Num (1979 / 2)
   \<and> calculateBoundaries_umd (demo_ubrowser 0) demo_uworld Element
         \<lparr>marginBottom = ''10.5px'', marginTop = ''0px''\<rparr>
       = Return \<lparr>b_start = Num 200, b_end = Num 990\<rparr>"
proof -
  have p: "parseFloat ''10.5px'' = Num (21 / 2)"
    by (simp add: parse_defs)
  show ?thesis
    using p
    by (simp add: calculateBoundaries_umd_def hasParent_umd_def demo_ubrowser_def
          demo_uworld_def demo_style_def to_int32_def js_sub_def Let_def)
qed

text \<open>
  What the earlier copy returns in the top case: the margin enters the end as a 32-bit
  integer.
\<close>

lemma calculateBoundaries_umd_top:
  assumes "u_computedStyle B w element ''top'' \<noteq> ''auto''" and "hasParent_umd w element"
  shows "calculateBoundaries_umd B w element stickyMargins =
     Return \<lparr>b_start = js_add (js_sub (Num (rect_top (u_boundingRect B w element)))
                                  (parseFloat (u_computedStyle B w element ''top'')))
                           (Num (u_pageYOffset B)),
              b_end = js_add (js_sub (Num (rect_bottom (u_parentRect B w element)))
                                (to_int32 (parseFloat (marginBottom stickyMargins))))
                         (Num (u_pageYOffset B))\<rparr>"
  using assms by (simp add: calculateBoundaries_umd_def Let_def)

text \<open>
  Claim C2. For an element whose computed \<open>top\<close> is \<open>auto\<close>, \<open>calculateBoundaries\<close>
  returns as start the bottom of the element's bounding rectangle plus the parsed
  \<open>bottom\<close>, and as end the top of the parent's bounding rectangle plus the sticky
  \<open>marginTop\<close> (zero when it does not parse to a number), with \<open>window.pageYOffset\<close>
  added to both. \<open>stickToBottom\<close> leaves the placeholder attached, which is its verdict
  that the element is in range, exactly when \<open>pageYOffset + innerHeight\<close> is at most the
  start and at least the end; \<open>stickToTop\<close> does so exactly when \<open>pageYOffset\<close> is at
  least the start and at most the end.
\<close>

theorem calculateBoundaries_bottom_and_range:
  "(computedStyle B w element ''top'' = ''auto'' \<longrightarrow>
      calculateBoundaries B w element stickyMargins =
        (if hasParent w element
         then Return \<lparr>b_start = js_add (js_add (Num (rect_bottom (boundingRect B w element)))
                                          (parseFloat (computedStyle B w element ''bottom'')))
                                   (Num (pageYOffset B)),
                      b_end = js_add (js_add (Num (rect_top (parentRect B w element)))
                                        (or0 (parseFloat (marginTop stickyMargins))))
                                 (Num (pageYOffset B))\<rparr>
         else Throw TypeError))
   \<and> (getData w = Some d \<and> el_parent w \<and> valid_token (activeClass (fn_sticky f))
        \<and> getBoundaries B f w (isAdded w) = Return b \<longrightarrow>
        (\<exists>w'. stickToBottom B f w = (Return (), w')
            \<and> isAdded w' = (js_le (js_add (Num (pageYOffset B)) (Num (innerHeight B))) (b_start b)
                            \<and> js_ge (js_add (Num (pageYOffset B)) (Num (innerHeight B))) (b_end b)))
      \<and> (\<exists>w'. stickToTop B f w = (Return (), w')
            \<and> isAdded w' = (js_le (b_start b) (Num (pageYOffset B))
                            \<and> js_le (Num (pageYOffset B)) (b_end b))))"
proof (intro conjI impI)
  assume "computedStyle B w element ''top'' = ''auto''"
  then show "calculateBoundaries B w element stickyMargins =
        (if hasParent w element
         then Return \<lparr>b_start = js_add (js_add (Num (rect_bottom (boundingRect B w element)))
                                          (parseFloat (computedStyle B w element ''bottom'')))
                                   (Num (pageYOffset B)),
                      b_end = js_add (js_add (Num (rect_top (parentRect B w element)))
                                        (or0 (parseFloat (marginTop stickyMargins))))
                                 (Num (pageYOffset B))\<rparr>
         else Throw TypeError)"
    by (simp add: calculateBoundaries_def Let_def)
next
  assume a: "getData w = Some d \<and> el_parent w \<and> valid_token (activeClass (fn_sticky f))
        \<and> getBoundaries B f w (isAdded w) = Return b"
  then have s: "el_store w = Some d" and p: "el_parent w"
    and v: "valid_token (activeClass (fn_sticky f))" by (simp_all add: getData_def)
  from a s have b: "getBoundaries B f w (ph_parent (placeholder d)) = Return b"
    by (simp add: isAdded_def getData_def)
  from stickToBottom_post [OF s p v b]
  show "\<exists>w'. stickToBottom B f w = (Return (), w')
            \<and> isAdded w' = (js_le (js_add (Num (pageYOffset B)) (Num (innerHeight B))) (b_start b)
                            \<and> js_ge (js_add (Num (pageYOffset B)) (Num (innerHeight B))) (b_end b))"
    by (auto simp: tick_post_def isAdded_def getData_def isInRangeBottom_def windowBottom_def)
  from stickToTop_post [OF s p v b]
  show "\<exists>w'. stickToTop B f w = (Return (), w')
            \<and> isAdded w' = (js_le (b_start b) (Num (pageYOffset B))
                            \<and> js_le (Num (pageYOffset B)) (b_end b))"
    by (auto simp: tick_post_def isAdded_def getData_def isInRangeTop_def js_ge_def)
qed

theorem calculateBoundaries_bottom_and_range_witness:
  "computedStyle (bottom_page 420) bottom_world Element ''top'' = ''auto''
   \<and> calculateBoundaries (bottom_page 420) bottom_world Element demo_margins
        = Return \<lparr>b_start = Num 1250, b_end = Num 1000\<rparr>
   \<and> getData bottom_world \<noteq> None \<and> el_parent bottom_world
   \<and> valid_token (activeClass (fn_sticky bottom_fn))
   \<and> getBoundaries (bottom_page 420) bottom_fn bottom_world (isAdded bottom_world)
        = Return \<lparr>b_start = Num 1250, b_end = Num 1000\<rparr>
   \<and> isAdded (snd (stickToBottom (bottom_page 420) bottom_fn bottom_world))
   \<and> \<not> isAdded (snd (stickToTop (bottom_page 420) bottom_fn bottom_world))"
proof -
  obtain d where d: "el_store bottom_world = Some d" "\<not> ph_parent (placeholder d)"
    using bottom_world_store by blast
  have t: "computedStyle (bottom_page 420) bottom_world Element ''top'' = ''auto''"
    by (simp add: bottom_page_def demo_defs)
  have hp: "hasParent bottom_world Element"
    by (simp add: hasParent_def bottom_world_facts)
  have gb: "getBoundaries (bottom_page 420) bottom_fn bottom_world (isAdded bottom_world)
        = Return \<lparr>b_start = Num 1250, b_end = Num 1000\<rparr>"
    using demo_getBoundaries [OF d(1) bottom_world_facts(2) d(2) demo_fn_facts(2), of "''auto''" "''0px''" 1000 420]
    by (simp add: bottom_world_facts bottom_page_def)
  note th = calculateBoundaries_bottom_and_range [of "bottom_page 420" bottom_world Element demo_margins
      d bottom_fn "\<lparr>b_start = Num 1250, b_end = Num 1000\<rparr>"]
  have c: "calculateBoundaries (bottom_page 420) bottom_world Element demo_margins
        = Return \<lparr>b_start = Num 1250, b_end = Num 1000\<rparr>"
    using th t hp by (simp add: bottom_page_def demo_defs or0_def)
  have pre: "getData bottom_world = Some d \<and> el_parent bottom_world
     \<and> valid_token (activeClass (fn_sticky bottom_fn))
     \<and> getBoundaries (bottom_page 420) bottom_fn bottom_world (isAdded bottom_world)
        = Return \<lparr>b_start = Num 1250, b_end = Num 1000\<rparr>"
    using d gb bottom_world_facts demo_fn_facts by (simp add: getData_def)
  have r: "isAdded (snd (stickToBottom (bottom_page 420) bottom_fn bottom_world))
     \<and> \<not> isAdded (snd (stickToTop (bottom_page 420) bottom_fn bottom_world))"
    using th pre by (auto simp add: bottom_page_def demo_browser_def js_ge_def)
  show ?thesis
    using t c gb r bottom_world_facts demo_fn_facts by simp
qed

section \<open>Destroying what was never initialized\<close>

text \<open>
  Claim C10. \<open>destroy()\<close> on an element with no store entry is not a no-op that returns:
  \<open>cleanUp\<close> resets the style properties, then reads \<open>data.position\<close> on the undefined
  store entry, which is a TypeError, and \<open>destroy\<close> ends there.
\<close>

theorem destroy_before_init:
  assumes "getData w = None"
  shows "destroy B s w =
     (Throw TypeError,
      resetStyleProperties set_el_style
        (properties @ [''marginTop'', ''marginBottom'', ''top'', ''bottom'']) w)"
  using assms by (simp add: destroy_def cleanUp_def Let_def)

theorem destroy_before_init_witness:
  "getData demo_world = None
   \<and> fst (destroy (demo_browser ''0px'' ''auto'' 0 0) (Sticky Map.empty) demo_world) = Throw TypeError"
proof -
  have h: "getData demo_world = None" by (simp add: getData_def demo_world_def)
  show ?thesis
    using h destroy_before_init [OF h, of "demo_browser ''0px'' ''auto'' 0 0" "Sticky Map.empty"]
    by simp
qed

section \<open>The offset while sticking\<close>

text \<open>
  Claim C4. On a scroll tick that finds the element in range, take as \<open>height\<close> the
  parsed computed height of the element, or zero when that is NaN, and as \<open>gap\<close>
  \<open>end - height - pageYOffset\<close> for the top anchor and
  \<open>end + height - (pageYOffset + innerHeight)\<close> for the bottom anchor. The handler
  sets the inline \<open>top\<close> to \<open>gap\<close> pixels when \<open>gap - declaredTop < 0\<close> and clears it
  to the empty string otherwise; it sets the inline \<open>bottom\<close> to \<open>-gap\<close> pixels when
  \<open>gap + declaredBottom > 0\<close> and clears it otherwise. The declared offset is the
  distance from the side that the handler parsed when it was built, a number, and the
  end of the boundaries is a number.
\<close>

theorem offset_while_sticking:
  assumes "getData w = Some d" and "el_parent w" and "valid_token (activeClass (fn_sticky f))"
    and "getBoundaries B f w (isAdded w) = Return b"
    and "fn_distance f = Num declared" and "b_end b = Num e"
  shows "(js_ge (Num (pageYOffset B)) (b_start b) \<and> js_le (Num (pageYOffset B)) (b_end b) \<longrightarrow>
           (\<exists>w'. stickToTop B f w = (Return (), w') \<and>
              el_style w' ''top'' =
                (let computed = parseFloat (computedStyle B w Element ''height'');
                     height = (if computed = NaN then Num 0 else computed);
                     gap = js_sub (js_sub (b_end b) height) (Num (pageYOffset B))
                 in if js_lt (js_sub gap (fn_distance f)) (Num 0) then Px gap else Txt '''')))
       \<and> (js_le (js_add (Num (pageYOffset B)) (Num (innerHeight B))) (b_start b)
            \<and> js_ge (js_add (Num (pageYOffset B)) (Num (innerHeight B))) (b_end b) \<longrightarrow>
           (\<exists>w'. stickToBottom B f w = (Return (), w') \<and>
              el_style w' ''bottom'' =
                (let computed = parseFloat (computedStyle B w Element ''height'');
                     height = (if computed = NaN then Num 0 else computed);
                     gap = js_sub (js_add (b_end b) height)
                                  (js_add (Num (pageYOffset B)) (Num (innerHeight B)))
                 in if js_gt (js_add gap (fn_distance f)) (Num 0) then Px (js_neg gap)
                    else Txt '''')))"
proof -
  from assms(1) have s: "el_store w = Some d" by (simp add: getData_def)
  from assms(4) s have b: "getBoundaries B f w (ph_parent (placeholder d)) = Return b"
    by (simp add: isAdded_def getData_def)
  have h: "elementHeight B w =
      (if parseFloat (computedStyle B w Element ''height'') = NaN then Num 0
       else parseFloat (computedStyle B w Element ''height''))"
    by (simp add: elementHeight_def or0_def)
  have hn: "elementHeight B w \<noteq> NaN"
    by (simp add: elementHeight_def or0_def)
  have nt: "js_sub (gapTop B w b) (fn_distance f) \<noteq> NaN"
    using assms(5,6) hn
    by (cases "elementHeight B w") (simp_all add: gapTop_def js_sub_def)
  have nb: "js_add (gapBottom B w b) (fn_distance f) \<noteq> NaN"
    using assms(5,6) hn
    by (cases "elementHeight B w") (simp_all add: gapBottom_def windowBottom_def js_sub_def)
  show ?thesis
  proof (intro conjI impI)
    assume "js_ge (Num (pageYOffset B)) (b_start b) \<and> js_le (Num (pageYOffset B)) (b_end b)"
    then have "isInRangeTop B b" by (simp add: isInRangeTop_def)
    from stickToTop_style [OF s assms(2,3) b this]
    show "\<exists>w'. stickToTop B f w = (Return (), w') \<and>
              el_style w' ''top'' =
                (let computed = parseFloat (computedStyle B w Element ''height'');
                     height = (if computed = NaN then Num 0 else computed);
                     gap = js_sub (js_sub (b_end b) height) (Num (pageYOffset B))
                 in if js_lt (js_sub gap (fn_distance f)) (Num 0) then Px gap else Txt '''')"
      using not_js_ge_iff [of "js_sub (gapTop B w b) (fn_distance f)"] nt
      by (auto simp add: gapTop_def h Let_def)
  next
    assume "js_le (js_add (Num (pageYOffset B)) (Num (innerHeight B))) (b_start b)
            \<and> js_ge (js_add (Num (pageYOffset B)) (Num (innerHeight B))) (b_end b)"
    then have "isInRangeBottom B b" by (simp add: isInRangeBottom_def windowBottom_def)
    from stickToBottom_style [OF s assms(2,3) b this]
    show "\<exists>w'. stickToBottom B f w = (Return (), w') \<and>
              el_style w' ''bottom'' =
                (let computed = parseFloat (computedStyle B w Element ''height'');
                     height = (if computed = NaN then Num 0 else computed);
                     gap = js_sub (js_add (b_end b) height)
                                  (js_add (Num (pageYOffset B)) (Num (innerHeight B)))
                 in if js_gt (js_add gap (fn_distance f)) (Num 0) then Px (js_neg gap)
                    else Txt '''')"
      using not_js_le_iff [of "js_add (gapBottom B w b) (fn_distance f)"] nb
      by (auto simp add: gapBottom_def h windowBottom_def Let_def)
  qed
qed

text \<open>
  On the demo page scrolled to 980 the gap of the 50 pixels high element is \<open>-30\<close> and
  the inline \<open>top\<close> is set; when the computed height does not parse, it counts as zero,
  the gap is 20 and the inline \<open>top\<close> is cleared. On the bottom page scrolled to 420
  the window's bottom is at 1020, the gap is 30 and the inline \<open>bottom\<close> is set to
  \<open>-30\<close> pixels.
\<close>

theorem offset_while_sticking_witness:
  "(getData top_world \<noteq> None \<and> el_parent top_world \<and> valid_token (activeClass (fn_sticky top_fn))
    \<and> fn_distance top_fn = Num 0
    \<and> getBoundaries (top_page 980) top_fn top_world (isAdded top_world)
         = Return \<lparr>b_start = Num 200, b_end = Num 1000\<rparr>
    \<and> js_ge (Num 980) (Num 200) \<and> js_le (Num 980) (Num 1000)
    \<and> parseFloat (computedStyle (top_page 980) top_world Element ''height'') = Num 50
    \<and> el_style (snd (stickToTop (top_page 980) top_fn top_world)) ''top'' = Px (Num (- 30)))
   \<and> (getBoundaries (auto_height_page 980) top_fn top_world (isAdded top_world)
         = Return \<lparr>b_start = Num 200, b_end = Num 1000\<rparr>
    \<and> parseFloat (computedStyle (auto_height_page 980) top_world Element ''height'') = NaN
    \<and> el_style (snd (stickToTop (auto_height_page 980) top_fn top_world)) ''top'' = Txt '''')
   \<and> (getData bottom_world \<noteq> None \<and> el_parent bottom_world
    \<and> valid_token (activeClass (fn_sticky bottom_fn))
    \<and> fn_distance bottom_fn = Num 0
    \<and> getBoundaries (bottom_page 420) bottom_fn bottom_world (isAdded bottom_world)
         = Return \<lparr>b_start = Num 1250, b_end = Num 1000\<rparr>
    \<and> js_le (Num 1020) (Num 1250) \<and> js_ge (Num 1020) (Num 1000)
    \<and> el_style (snd (stickToBottom (bottom_page 420) bottom_fn bottom_world)) ''bottom'' = Px (Num (- 30)))"
proof -
  obtain dt where dt: "el_store top_world = Some dt" "\<not> ph_parent (placeholder dt)"
    using top_world_store by blast
  have bt: "getBoundaries (top_page 980) top_fn top_world (isAdded top_world)
         = Return \<lparr>b_start = Num 200, b_end = Num 1000\<rparr>"
    using demo_getBoundaries [OF dt(1) top_world_facts(2) dt(2) demo_fn_facts(1), of "''0px''" "''auto''" 0 980]
    by (simp add: top_world_facts top_page_def js_sub_def)
  have ba: "getBoundaries (auto_height_page 980) top_fn top_world (isAdded top_world)
         = Return \<lparr>b_start = Num 200, b_end = Num 1000\<rparr>"
    using dt top_world_facts(2) demo_fn_facts(1)
    by (simp add: top_world_facts auto_height_page_def top_page_def getBoundaries_def getData_def
          calculateBoundaries_def hasParent_def demo_defs Let_def js_sub_def or0_def)
  obtain db where db: "el_store bottom_world = Some db" "\<not> ph_parent (placeholder db)"
    using bottom_world_store by blast
  have bb: "getBoundaries (bottom_page 420) bottom_fn bottom_world (isAdded bottom_world)
         = Return \<lparr>b_start = Num 1250, b_end = Num 1000\<rparr>"
    using demo_getBoundaries [OF db(1) bottom_world_facts(2) db(2) demo_fn_facts(2), of "''auto''" "''0px''" 1000 420]
    by (simp add: bottom_world_facts bottom_page_def)
  have t: "el_style (snd (stickToTop (top_page 980) top_fn top_world)) ''top'' = Px (Num (- 30))"
    using offset_while_sticking [OF dt(1) [folded getData_def] top_world_facts(2) demo_fn_facts(3) bt
        demo_fn_facts(7)]
    by (auto simp add: top_page_def demo_browser_def demo_style_def demo_fn_facts js_ge_def js_sub_def)
  have a: "el_style (snd (stickToTop (auto_height_page 980) top_fn top_world)) ''top'' = Txt ''''"
    using offset_while_sticking [OF dt(1) [folded getData_def] top_world_facts(2) demo_fn_facts(3) ba
        demo_fn_facts(7)]
    by (auto simp add: auto_height_page_def top_page_def demo_browser_def demo_style_def
          demo_fn_facts js_ge_def js_sub_def)
  have b: "el_style (snd (stickToBottom (bottom_page 420) bottom_fn bottom_world)) ''bottom'' = Px (Num (- 30))"
    using offset_while_sticking [OF db(1) [folded getData_def] bottom_world_facts(2) demo_fn_facts(4) bb
        demo_fn_facts(8)]
    by (auto simp add: bottom_page_def demo_browser_def demo_style_def demo_fn_facts js_ge_def js_gt_def js_sub_def)
  show ?thesis
    using t a b bt ba bb demo_fn_facts top_world_facts bottom_world_facts
    by (simp add: js_ge_def auto_height_page_def top_page_def demo_browser_def demo_style_def)
qed

section \<open>The placeholder is attached exactly while the element sticks\<close>

text \<open>
  Claim C5. The sticking state of an instance is marked on the element by the active
  class, with the inline \<open>position\<close> set to \<open>fixed\<close>. After a successful \<open>init\<close> and
  after each scroll or resize handler invocation that follows it, the placeholder has a
  parent node if and only if the element carries the active class, and then the
  element's inline \<open>position\<close> is \<open>fixed\<close>. A further scroll tick returns, and leaves
  the placeholder attached exactly when its range test succeeds. It changes the
  attachment in two ways only: from detached to attached by \<open>startSticky\<close>, after which
  the placeholder's \<open>width\<close>, \<open>height\<close> and \<open>left\<close> are those of the element's bounding
  rectangle read at that tick; from attached to detached by \<open>endSticky\<close>, whose
  \<open>cleanUp\<close> removes the placeholder; a tick that leaves the attachment as it was
  leaves the whole store entry as it was.
\<close>

theorem attached_iff_sticking:
  assumes "init B0 s w0 = (Return u, w1)" and "run_ticks ts w1 = (Return u', w)"
  shows "isAdded w = hasActiveClass w
       \<and> (isAdded w \<longrightarrow> el_style w ''position'' = Txt ''fixed'')
       \<and> (\<exists>w'. call_stored_scroll B w = (Return (), w')
             \<and> isAdded w' = stored_inRange B w
             \<and> isAdded w' = hasActiveClass w'
             \<and> (isAdded w' \<and> \<not> isAdded w \<longrightarrow>
                  (\<exists>ws. startSticky B s w = (Return (), ws) \<and> getData w' = getData ws
                     \<and> get_ph_style w' ''width'' = Px (Num (rect_width (boundingRect B w Element)))
                     \<and> get_ph_style w' ''height'' = Px (Num (rect_height (boundingRect B w Element)))
                     \<and> get_ph_style w' ''left'' = Px (Num (rect_left (boundingRect B w Element)))))
             \<and> (\<not> isAdded w' \<and> isAdded w \<longrightarrow> endSticky s w = (Return (), w'))
             \<and> (isAdded w' = isAdded w \<longrightarrow> getData w' = getData w))"
proof -
  from run_inv [OF init_inv [OF assms(1)] assms(2)]
  have i: "sticky_inv s (el_style w0 ''position'') w" .
  from tick_inv [OF i, of B] obtain w' where
    c: "call_stored_scroll B w = (Return (), w')"
    and i': "sticky_inv s (el_style w0 ''position'') w'"
    and a': "isAdded w' = stored_inRange B w" by blast
  from tick_changes [OF i c] inv_class [OF i] inv_class [OF i'] inv_fixed [OF i] c a'
  show ?thesis by simp
qed

theorem attached_iff_sticking_witness:
  "init (top_page 0) (Sticky Map.empty) demo_world = (Return (), top_world)
   \<and> fst (run_ticks [ScrollTick (top_page 1200), ResizeTick (top_page 500)] top_world) = Return ()
   \<and> isAdded (snd (run_ticks [ScrollTick (top_page 1200), ResizeTick (top_page 500)] top_world))
   \<and> hasActiveClass (snd (run_ticks [ScrollTick (top_page 1200), ResizeTick (top_page 500)] top_world))
   \<and> el_style (snd (run_ticks [ScrollTick (top_page 1200), ResizeTick (top_page 500)] top_world))
         ''position'' = Txt ''fixed''
   \<and> \<not> stored_inRange (top_page 1200)
         (snd (run_ticks [ScrollTick (top_page 1200), ResizeTick (top_page 500)] top_world))
   \<and> call_stored_scroll (top_page 1200)
         (snd (run_ticks [ScrollTick (top_page 1200), ResizeTick (top_page 500)] top_world))
       = endSticky (Sticky Map.empty)
         (snd (run_ticks [ScrollTick (top_page 1200), ResizeTick (top_page 500)] top_world))"
proof -
  let ?s = "Sticky Map.empty"
  from init_inv [OF top_world_init]
  have i: "sticky_inv ?s (el_style demo_world ''position'') top_world" .
  from tick_inv [OF i, of "top_page 1200"] obtain w1 where
    c1: "call_stored_scroll (top_page 1200) top_world = (Return (), w1)"
    and i1: "sticky_inv ?s (el_style demo_world ''position'') w1" by blast
  from top_page_resize [OF i1, of 500] obtain w2 d2 where
    c2: "call_stored_resize (top_page 500) w1 = (Return (), w2)" and a2: "isAdded w2"
    and d2: "el_store w2 = Some d2" "fn_side (scroll (handlers d2)) = StickToTop"
      "fn_margins (scroll (handlers d2)) = demo_margins"
    by auto
  have r: "run_ticks [ScrollTick (top_page 1200), ResizeTick (top_page 500)] top_world = (Return (), w2)"
    by (simp add: c1 c2)
  from run_inv [OF i r] have "el_parent w2" by (rule inv_store)
  from top_range_gen [OF d2 this, of 1200]
  have nr: "\<not> stored_inRange (top_page 1200) w2" by simp
  from attached_iff_sticking [OF top_world_init r, of "top_page 1200"]
  show ?thesis
    using top_world_init r a2 nr by auto
qed

section \<open>Transitions and their events\<close>

text \<open>
  Claim C6. After a successful \<open>init\<close>, every sequence of scroll ticks runs to its end,
  and the events dispatched during it are exactly those the sequence of range-test
  outcomes calls for: one \<open>stickystart\<close> for each tick that finds the element in range
  after a tick (or an \<open>init\<close>) that left it out of range, one \<open>stickyend\<close> for each
  tick that finds it out of range after one that left it in range, and nothing for a
  tick on the same side as the one before. After each tick the placeholder is attached
  exactly when that tick was in range, and the element carries the active class exactly
  when the placeholder is attached.
\<close>

theorem transitions_fire_once:
  assumes "init B0 s w0 = (Return u, w1)"
  shows "\<exists>w. scroll_ticks Bs w1 = (Return (), w)
           \<and> dispatched w = dispatched w1 @ transition_events (isAdded w1) (range_trace Bs w1)
           \<and> isAdded w = last (isAdded w1 # range_trace Bs w1)
           \<and> hasActiveClass w = isAdded w"
proof -
  from init_inv [OF assms] have i: "sticky_inv s (el_style w0 ''position'') w1" .
  from scroll_ticks_inv [OF i, of Bs] inv_class show ?thesis by blast
qed

theorem transitions_fire_once_witness:
  "init (top_page 0) (Sticky Map.empty) demo_world = (Return (), top_world)
   \<and> range_trace (map top_page [300, 400, 1200, 1300, 500]) top_world = [True, True, False, False, True]
   \<and> fst (scroll_ticks (map top_page [300, 400, 1200, 1300, 500]) top_world) = Return ()
   \<and> dispatched (snd (scroll_ticks (map top_page [300, 400, 1200, 1300, 500]) top_world))
        = [''stickystart'', ''stickyend'', ''stickystart'']
   \<and> isAdded (snd (scroll_ticks (map top_page [300, 400, 1200, 1300, 500]) top_world))
   \<and> hasActiveClass (snd (scroll_ticks (map top_page [300, 400, 1200, 1300, 500]) top_world))"
proof -
  from init_inv [OF top_world_init] have i: "sticky_inv (Sticky Map.empty) (el_style demo_world ''position'') top_world" .
  from top_trace [OF i refl, of "[300, 400, 1200, 1300, 500]"]
  have t: "range_trace (map top_page [300, 400, 1200, 1300, 500]) top_world = [True, True, False, False, True]"
    by simp
  have d: "dispatched top_world = []" by (simp add: page_defs)
  from transitions_fire_once [OF top_world_init, of "map top_page [300, 400, 1200, 1300, 500]"]
  show ?thesis
    using top_world_init t d top_world_facts(3) by (auto simp del: list.map)
qed

section \<open>Initializing twice\<close>

text \<open>
  Claim C3. After a successful \<open>init\<close> and any scroll and resize handler invocations
  that follow it, and without a \<open>destroy\<close>, another call of \<open>init\<close> on the element, by
  the same or any other Sticky object, throws the Error of the double-initialization
  guard, and leaves the whole state as it was: the store entry with its placeholder,
  handlers and saved position, the inline style, the class list and the listeners.
\<close>

theorem init_twice:
  assumes "init B s w = (Return u, w1)" and "run_ticks ts w1 = (Return u', w2)"
  shows "init B' s' w2 = (Throw (Error ''This element has already been initialized''), w2)"
proof -
  from run_inv [OF init_inv [OF assms(1)] assms(2)] obtain d where "el_store w2 = Some d"
    by (rule inv_store)
  then show ?thesis by (simp add: init_def getData_def)
qed

theorem init_twice_witness:
  "init (top_page 0) (Sticky Map.empty) demo_world = (Return (), top_world)
   \<and> fst (run_ticks [ScrollTick (top_page 500)] top_world) = Return ()
   \<and> init (top_page 600) (Sticky Map.empty) (snd (run_ticks [ScrollTick (top_page 500)] top_world))
       = (Throw (Error ''This element has already been initialized''),
          snd (run_ticks [ScrollTick (top_page 500)] top_world))
   \<and> isAdded (snd (run_ticks [ScrollTick (top_page 500)] top_world))"
proof -
  from init_inv [OF top_world_init]
  have i: "sticky_inv (Sticky Map.empty) (el_style demo_world ''position'') top_world" .
  from tick_inv [OF i, of "top_page 500"] obtain w2 where
    c: "call_stored_scroll (top_page 500) top_world = (Return (), w2)"
    and a: "isAdded w2 = stored_inRange (top_page 500) top_world" by blast
  obtain d where d: "el_store top_world = Some d" "scroll (handlers d) = top_fn"
    using top_world_store by blast
  have r: "run_ticks [ScrollTick (top_page 500)] top_world = (Return (), w2)"
    by (simp add: c)
  from init_twice [OF top_world_init r, of "top_page 600" "Sticky Map.empty"]
  show ?thesis
    using top_world_init r a top_range [OF d top_world_facts(2), of 500] by simp
qed

section \<open>What destroy restores\<close>

text \<open>
  Claim C7, as amended, for the current module. After a successful \<open>init\<close> and any
  scroll and resize handler invocations that follow it, \<open>destroy()\<close> returns, sets the
  element's inline \<open>position\<close> to the value it had immediately before \<open>init()\<close>,
  sets each of \<open>width\<close>,
  \<open>height\<close>, \<open>left\<close>, \<open>marginLeft\<close>, \<open>marginRight\<close>, \<open>zIndex\<close>, \<open>top\<close>, \<open>bottom\<close>,
  \<open>marginTop\<close> and \<open>marginBottom\<close> to the empty string, which is the value before
  \<open>init()\<close> only for a property that had no inline value then, and removes the store
  entry.
\<close>

theorem destroy_restores:
  assumes "init B0 s w0 = (Return u, w1)" and "run_ticks ts w1 = (Return u', w2)"
  shows "\<exists>w3. destroy B s' w2 = (Return (), w3)
           \<and> el_style w3 ''position'' = el_style w0 ''position''
           \<and> list_all (\<lambda>p. el_style w3 p = Txt '''')
                [''width'', ''height'', ''left'', ''marginLeft'', ''marginRight'', ''zIndex'',
                 ''top'', ''bottom'', ''marginTop'', ''marginBottom'']
           \<and> getData w3 = None"
proof -
  from run_inv [OF init_inv [OF assms(1)] assms(2)] obtain d where
    d: "el_store w2 = Some d" and pd: "position d = el_style w0 ''position''"
    by (rule inv_store)
  from destroy_ok [OF d, of B s'] obtain ls where
    "destroy B s' w2 = (Return (),
      w2\<lparr>el_style := (\<lambda>p. if p = ''position'' then position d
                          else if p \<in> set (properties @ [''marginTop'', ''marginBottom'', ''top'', ''bottom''])
                          then Txt '''' else el_style w2 p),
         el_store := None, listeners := ls\<rparr>)" by blast
  then show ?thesis
    by (simp add: pd getData_def properties_def)
qed

theorem destroy_restores_witness:
  "init (top_page 0) (Sticky Map.empty) demo_world = (Return (), top_world)
   \<and> fst (run_ticks [ScrollTick (top_page 500)] top_world) = Return ()
   \<and> el_style (snd (run_ticks [ScrollTick (top_page 500)] top_world)) ''position'' = Txt ''fixed''
   \<and> fst (destroy (top_page 500) (Sticky Map.empty)
            (snd (run_ticks [ScrollTick (top_page 500)] top_world))) = Return ()
   \<and> el_style (snd (destroy (top_page 500) (Sticky Map.empty)
            (snd (run_ticks [ScrollTick (top_page 500)] top_world)))) ''position''
        = el_style demo_world ''position''
   \<and> el_style (snd (destroy (top_page 500) (Sticky Map.empty)
            (snd (run_ticks [ScrollTick (top_page 500)] top_world)))) ''width'' = Txt ''''"
proof -
  from init_inv [OF top_world_init]
  have i: "sticky_inv (Sticky Map.empty) (el_style demo_world ''position'') top_world" .
  from tick_inv [OF i, of "top_page 500"] obtain w2 where
    c: "call_stored_scroll (top_page 500) top_world = (Return (), w2)"
    and i2: "sticky_inv (Sticky Map.empty) (el_style demo_world ''position'') w2"
    and a: "isAdded w2 = stored_inRange (top_page 500) top_world" by blast
  obtain d where d: "el_store top_world = Some d" "scroll (handlers d) = top_fn"
    using top_world_store by blast
  from a top_range [OF d top_world_facts(2), of 500] have "isAdded w2" by simp
  from inv_fixed [OF i2 this] have f: "el_style w2 ''position'' = Txt ''fixed''" .
  have r: "run_ticks [ScrollTick (top_page 500)] top_world = (Return (), w2)"
    by (simp add: c)
  from destroy_restores [OF top_world_init r, of "top_page 500" "Sticky Map.empty"]
  show ?thesis
    using top_world_init r f by auto
qed

text \<open>
  The claim as it was stated has every one of these properties back at its value from
  before \<open>init()\<close>. An element with an inline \<open>width\<close> of 100 pixels has the empty
  string there after \<open>init()\<close> and \<open>destroy()\<close>.
\<close>

theorem destroy_restores_counterexample:
  "el_style styled_world ''width'' = Txt ''100px''
   \<and> fst (init (top_page 0) (Sticky Map.empty) styled_world) = Return ()
   \<and> fst (destroy (top_page 0) (Sticky Map.empty)
            (snd (init (top_page 0) (Sticky Map.empty) styled_world))) = Return ()
   \<and> el_style (snd (destroy (top_page 0) (Sticky Map.empty)
            (snd (init (top_page 0) (Sticky Map.empty) styled_world)))) ''width'' = Txt ''''"
proof -
  have q: "\<And>w'. querySelectorAll (top_page 0) w' (selector (Sticky Map.empty)) \<noteq> None"
    by (simp add: top_page_def demo_defs)
  have "el_store styled_world = None" "el_parent styled_world"
    by (simp_all add: styled_world_def demo_world_def)
  from init_ok [OF this(1) demo_valid_token this(2) q] obtain w1 where
    i: "init (top_page 0) (Sticky Map.empty) styled_world = (Return (), w1)" by blast
  from init_inv [OF i] obtain d where d: "el_store w1 = Some d" by (rule inv_store)
  from destroy_ok [OF d, of "top_page 0" "Sticky Map.empty"] obtain ls where
    de: "destroy (top_page 0) (Sticky Map.empty) w1 = (Return (),
      w1\<lparr>el_style := (\<lambda>p. if p = ''position'' then position d
                          else if p \<in> set (properties @ [''marginTop'', ''marginBottom'', ''top'', ''bottom''])
                          then Txt '''' else el_style w1 p),
         el_store := None, listeners := ls\<rparr>)" by blast
  show ?thesis
    by (simp add: i de properties_def) (simp add: styled_world_def)
qed

text \<open>
  The amended claim is about the current module. \<open>cleanUp\<close> of the earlier copy does
  not name \<open>top\<close> and \<open>bottom\<close>: whatever its scroll handler has assigned to them is
  still there after \<open>destroy()\<close>.
\<close>

lemma destroy_umd_keeps_top_and_bottom:
  "u_style (snd (destroy_umd w)) ''top'' = u_style w ''top''
   \<and> u_style (snd (destroy_umd w)) ''bottom'' = u_style w ''bottom''"
  by (auto simp add: destroy_umd_def cleanUp_umd_def unbindEvents_umd_def removeData_umd_def
        removeEventListener_umd_def resetStyleProperties_umd_def set_u_style_def properties_def
        getData_umd_def getData_property_def Let_def split: option.splits)

section \<open>What a successful init does\<close>

text \<open>
  Claim C8, for the current module. A successful \<open>init()\<close>, on a page where no listener
  is one of the closures still to be created, passes through a state in which the store entry holds the scroll
  and resize handlers built for this Sticky object, the window has three more listeners,
  the stored scroll handler for \<open>load\<close> and for \<open>scroll\<close> and the stored resize handler
  for \<open>resize\<close>, the \<open>scroll\<close> one passive exactly when the browser supports passive
  listeners, no event has been dispatched and the placeholder is detached; \<open>init()\<close>
  then calls the stored scroll handler once on that state, and what this one call
  returns is what \<open>init()\<close> returns. So after \<open>init()\<close> the placeholder is attached exactly
  when the range test of that call succeeded, and the listeners and handlers are those
  that were bound.
\<close>

theorem init_binds_and_calls:
  assumes "init B s w = (Return u, w')" and "fresh_ids w"
  shows "\<exists>wm d. getData wm = Some d
           \<and> fn_sticky (scroll (handlers d)) = s \<and> rfn_sticky (resize (handlers d)) = s
           \<and> listeners wm = listeners w @
                [\<lparr>l_type = ''load'', l_fn = ScrollFn (scroll (handlers d)),
                   l_capture = False, l_passive = False\<rparr>,
                 \<lparr>l_type = ''scroll'', l_fn = ScrollFn (scroll (handlers d)),
                   l_capture = False, l_passive = isPassiveEventListenerSupported B\<rparr>,
                 \<lparr>l_type = ''resize'', l_fn = ResizeFn (resize (handlers d)),
                   l_capture = False, l_passive = False\<rparr>]
           \<and> dispatched wm = dispatched w \<and> \<not> isAdded wm
           \<and> call_scroll B (scroll (handlers d)) wm = (Return (), w')
           \<and> isAdded w' = inRange B (scroll (handlers d)) wm
           \<and> listeners w' = listeners wm
           \<and> map_option handlers (getData w') = Some (handlers d)"
proof -
  from init_Return [OF assms(1)] obtain wm d where
    v: "valid_token (activeClass s)" and sm: "el_store wm = Some d"
    and na: "\<not> ph_parent (placeholder d)"
    and fs: "fn_sticky (scroll (handlers d)) = s" and rs: "rfn_sticky (resize (handlers d)) = s"
    and pd: "position d = el_style w ''position''"
    and es: "el_style wm = el_style w" and ep: "el_parent wm = el_parent w"
    and ec: "el_classes wm = removeAll (activeClass s) (el_classes w)"
    and dm: "dispatched wm = dispatched w"
    and ls: "fresh_ids w \<longrightarrow> listeners wm = listeners w @ bound_listeners B (handlers d)"
    and c: "call_stored_scroll B wm = (Return u, w')"
    by blast
  from c sm have cs: "call_scroll B (scroll (handlers d)) wm = (Return (), w')"
    by (simp add: call_stored_scroll_def getData_def)
  from call_scroll_Return_parent [OF sm na this] have p: "el_parent wm" .
  have i: "sticky_inv s (el_style w ''position'') wm"
    unfolding sticky_inv_def using p v sm na fs rs pd es ec by simp
  from tick_inv [OF i, of B] c
  have a: "isAdded w' = stored_inRange B wm" and l: "listeners w' = listeners wm" by simp_all
  from tick_handlers [OF i, of B] c sm
  have h: "map_option handlers (getData w') = Some (handlers d)" by (simp add: getData_def)
  show ?thesis
    using sm fs rs ls assms(2) dm na cs a l h
    by (intro exI [of _ wm] exI [of _ d])
       (simp add: getData_def bound_listeners_def isPassiveEventListenerSupported_def
          isAdded_def stored_inRange_def)
qed

theorem init_binds_and_calls_witness:
  "init (top_page 500) (Sticky Map.empty) demo_world
     = (Return (), snd (init (top_page 500) (Sticky Map.empty) demo_world))
   \<and> fresh_ids demo_world
   \<and> map (\<lambda>l. (l_type l, l_capture l, l_passive l))
        (listeners (snd (init (top_page 500) (Sticky Map.empty) demo_world)))
       = [(''load'', False, False), (''scroll'', False, True), (''resize'', False, False)]
   \<and> isAdded (snd (init (top_page 500) (Sticky Map.empty) demo_world))"
proof -
  have q: "\<And>w'. querySelectorAll (top_page 500) w' (selector (Sticky Map.empty)) \<noteq> None"
    by (simp add: top_page_def demo_defs)
  have "el_store demo_world = None" "el_parent demo_world"
    by (simp_all add: demo_world_def)
  from init_ok [OF this(1) demo_valid_token this(2) q] obtain w1 where
    i: "init (top_page 500) (Sticky Map.empty) demo_world = (Return (), w1)" by blast
  have f: "fresh_ids demo_world" by (simp add: fresh_ids_def demo_world_def)
  from top_page_init [OF i] have a: "isAdded w1" by auto
  have p: "isPassiveEventListenerSupported (top_page 500)"
    by (simp add: isPassiveEventListenerSupported_def top_page_def demo_defs)
  have l: "listeners demo_world = []" by (simp add: demo_world_def)
  from init_binds_and_calls [OF i f]
  show ?thesis
    using i f a p l by auto
qed

text \<open>
  The claim covers the earlier copy too, and there it fails. \<open>init\<close> of the earlier copy
  ends with \<open>bindEvents\<close>, which passes no options. On the demo page scrolled to 500,
  where the browser supports passive listeners and the element is between its
  boundaries, it returns with the three listeners bound, the \<open>scroll\<close> one not passive,
  and with the element as it found it: the placeholder detached, no inline \<open>position\<close>,
  the class name unchanged.
\<close>

theorem init_binds_and_calls_counterexample:
  "fst (init_umd (demo_ubrowser 500) (Sticky_umd Map.empty) demo_uworld) = Return ()
   \<and> u_passiveSupported (demo_ubrowser 500)
   \<and> map (\<lambda>l. (l_type l, l_capture l, l_passive l))
        (u_listeners (snd (init_umd (demo_ubrowser 500) (Sticky_umd Map.empty) demo_uworld)))
       = [(''load'', False, False), (''scroll'', False, False), (''resize'', False, False)]
   \<and> calculateBoundaries_umd (demo_ubrowser 500)
        (snd (init_umd (demo_ubrowser 500) (Sticky_umd Map.empty) demo_uworld)) Element demo_margins
       = Return \<lparr>b_start = Num 200, b_end = Num 1000\<rparr>
   \<and> js_ge (Num 500) (Num 200) \<and> js_le (Num 500) (Num 1000)
   \<and> map_option (\<lambda>d. map_option ph_parent (u_placeholder d))
        (u_store (snd (init_umd (demo_ubrowser 500) (Sticky_umd Map.empty) demo_uworld)))
       = Some (Some False)
   \<and> u_style (snd (init_umd (demo_ubrowser 500) (Sticky_umd Map.empty) demo_uworld)) ''position''
       = Txt ''''
   \<and> u_className (snd (init_umd (demo_ubrowser 500) (Sticky_umd Map.empty) demo_uworld))
       = ''sticky''"
  by (simp add: demo_uworld_init js_ge_def demo_placeholder_def)
     (simp add: calculateBoundaries_umd_def hasParent_umd_def to_int32_def demo_ubrowser_def
        demo_uworld_def demo_style_def demo_margins_def js_sub_def Let_def)

section \<open>The settings\<close>

text \<open>
  Claim C9, as amended. For every options object passed to \<open>new Sticky(element, options)\<close>,
  the resulting settings are the defaults \<open>{ selector: '.sticky', activeClass:
  'sticky--active' }\<close> overridden key by key by the options, so the class name that
  \<open>startSticky\<close> adds and \<open>endSticky\<close> removes is \<open>options.activeClass\<close> when that key
  is provided and \<open>'sticky--active'\<close> otherwise, and the options object itself is not
  modified.
\<close>

theorem Sticky_settings:
  "settings (Sticky options) = defaults ++ options
   \<and> defaults = [''selector'' \<mapsto> ''.sticky'', ''activeClass'' \<mapsto> ''sticky--active'']
   \<and> (\<forall>k. settings (Sticky options) k = (case options k of Some v \<Rightarrow> Some v | None \<Rightarrow> defaults k))
   \<and> options_after_Sticky options = options
   \<and> activeClass (Sticky options)
       = (case options ''activeClass'' of Some c \<Rightarrow> c | None \<Rightarrow> ''sticky--active'')
   \<and> (startSticky B (Sticky options) w = (Return u, w') \<longrightarrow>
        (case options ''activeClass'' of Some c \<Rightarrow> c | None \<Rightarrow> ''sticky--active'')
          \<in> set (el_classes w'))
   \<and> (endSticky (Sticky options) w = (Return u, w') \<longrightarrow>
        (case options ''activeClass'' of Some c \<Rightarrow> c | None \<Rightarrow> ''sticky--active'')
          \<notin> set (el_classes w'))"
proof -
  have a: "activeClass (Sticky options)
       = (case options ''activeClass'' of Some c \<Rightarrow> c | None \<Rightarrow> ''sticky--active'')"
    by (simp add: activeClass_def Sticky_eq defaults_def map_add_def split: option.splits)
  have k: "\<forall>k. settings (Sticky options) k = (case options k of Some v \<Rightarrow> Some v | None \<Rightarrow> defaults k)"
    by (simp add: Sticky_eq map_add_def)
  show ?thesis
    using a k startSticky_class [of B "Sticky options" w u w'] endSticky_class [of "Sticky options" w u w']
    by (simp add: Sticky_eq defaults_def options_after_Sticky_def Object_assign_def)
qed

theorem Sticky_settings_witness:
  "fst (startSticky (top_page 500) (Sticky [''activeClass'' \<mapsto> ''stuck'']) top_world) = Return ()
   \<and> ''stuck'' \<in> set (el_classes (snd (startSticky (top_page 500)
                     (Sticky [''activeClass'' \<mapsto> ''stuck'']) top_world)))
   \<and> fst (endSticky (Sticky [''activeClass'' \<mapsto> ''stuck'']) top_world) = Return ()
   \<and> ''stuck'' \<notin> set (el_classes (snd (endSticky (Sticky [''activeClass'' \<mapsto> ''stuck'']) top_world)))
   \<and> settings (Sticky [''activeClass'' \<mapsto> ''stuck''])
       = [''selector'' \<mapsto> ''.sticky'', ''activeClass'' \<mapsto> ''stuck'']"
proof -
  let ?s = "Sticky [''activeClass'' \<mapsto> ''stuck'']"
  obtain d where d: "el_store top_world = Some d" using top_world_store by blast
  have v: "valid_token (activeClass ?s)"
    by (simp add: valid_token_def activeClass_def Sticky_eq defaults_def is_space_def)
  from startSticky_ok [OF d top_world_facts(2) v, of "top_page 500"] obtain ws where
    st: "startSticky (top_page 500) ?s top_world = (Return (), ws)" by blast
  from endSticky_ok [OF d v] obtain we where
    en: "endSticky ?s top_world = (Return (), we)" by blast
  have m: "settings ?s = [''selector'' \<mapsto> ''.sticky'', ''activeClass'' \<mapsto> ''stuck'']"
    by (simp add: Sticky_eq defaults_def fun_eq_iff map_add_def)
  from Sticky_settings [of "[''activeClass'' \<mapsto> ''stuck'']" "top_page 500" top_world "()" ws]
    Sticky_settings [of "[''activeClass'' \<mapsto> ''stuck'']" "top_page 500" top_world "()" we]
  show ?thesis
    using st en m by simp
qed

text \<open>
  The claim as it was stated names the key \<open>activeClassName\<close>. The defaults have no
  such key; an options object that provides it leaves the class at \<open>'sticky--active'\<close>,
  and that is the class \<open>startSticky\<close> adds.
\<close>

theorem Sticky_settings_counterexample:
  "[''activeClassName'' \<mapsto> ''stuck''] ''activeClassName'' = Some ''stuck''
   \<and> defaults ''activeClassName'' = None
   \<and> activeClass (Sticky [''activeClassName'' \<mapsto> ''stuck'']) = ''sticky--active''
   \<and> fst (startSticky (top_page 500) (Sticky [''activeClassName'' \<mapsto> ''stuck'']) top_world) = Return ()
   \<and> el_classes (snd (startSticky (top_page 500) (Sticky [''activeClassName'' \<mapsto> ''stuck'']) top_world))
       = [''sticky'', ''sticky--active'']"
proof -
  let ?s = "Sticky [''activeClassName'' \<mapsto> ''stuck'']"
  obtain d where d: "el_store top_world = Some d" using top_world_store by blast
  have a: "activeClass ?s = ''sticky--active''"
    by (simp add: activeClass_def Sticky_eq defaults_def)
  have v: "valid_token (activeClass ?s)"
    by (simp add: a valid_token_def is_space_def)
  from startSticky_ok [OF d top_world_facts(2) v, of "top_page 500"]
  show ?thesis
    by (auto simp add: a defaults_def) (simp_all add: page_defs)
qed

end
